theory Spec2Isabelle
  imports Main "HOL-Library.List_Lexorder" "HOL-Library.Sublist"
begin

section \<open>Python primitives used by the sources\<close>

text \<open>
  The built-in functions are modelled as Python 3 defines them, on strings of the
  code points up to 255 (a \<open>char\<close> is one code point).
  The type \<open>error\<close> lists the exceptions that the modelled code can raise.
  \<open>ConfigurationError\<close> is the class imported from \<open>common\<close>; the others are
  Python built-ins: \<open>ValueError\<close> is
  what \<open>int()\<close> raises on a string that is no integer literal, \<open>TypeError\<close> what
  \<open>os.path\<close> functions raise on \<open>None\<close>, \<open>OSError\<close> what \<open>os\<close> and
  \<open>shutil\<close> raise on a failed file system operation.
\<close>

datatype error = ConfigurationError string | ValueError | TypeError | OSError

text \<open>\<open>str.split(sep)\<close> for a one-character separator: every occurrence splits, and
  the result is never empty (\<open>''''.split('.')\<close> is \<open>['''']\<close>).\<close>

fun split_on :: "char \<Rightarrow> string \<Rightarrow> string list" where
  "split_on sep [] = [[]]"
| "split_on sep (c # cs) =
     (if c = sep then [] # split_on sep cs
      else (case split_on sep cs of [] \<Rightarrow> [[c]] | w # ws \<Rightarrow> (c # w) # ws))"

definition is_digit :: "char \<Rightarrow> bool" where
  "is_digit c = (48 \<le> (of_char c :: nat) \<and> (of_char c :: nat) \<le> 57)"

text \<open>The characters that \<open>int()\<close> skips before and after the literal: tab, line
  feed, vertical tab, form feed, carriage return and space, and beyond ASCII the
  next-line character U+0085 and the no-break space U+00A0. (The separators U+001C to
  U+001F, which \<open>str.isspace\<close> accepts, are not skipped.)\<close>

definition is_space :: "char \<Rightarrow> bool" where
  "is_space c = ((of_char c :: nat) \<in> {9, 10, 11, 12, 13, 32, 133, 160})"

definition digit_value :: "char \<Rightarrow> int" where
  "digit_value c = int (of_char c) - 48"

definition decimal :: "string \<Rightarrow> int" where
  "decimal ds = foldl (\<lambda>n c. 10 * n + digit_value c) 0 ds"

definition strip :: "string \<Rightarrow> string" where
  "strip s = rev (dropWhile is_space (rev (dropWhile is_space s)))"

text \<open>The body of a decimal integer literal: digits, with single underscores allowed
  between two digits.\<close>

fun int_body_ok :: "string \<Rightarrow> bool" where
  "int_body_ok [] = False"
| "int_body_ok [c] = is_digit c"
| "int_body_ok (c # d # cs) =
     (is_digit c \<and> (if d = CHR ''_'' then int_body_ok cs else int_body_ok (d # cs)))"

text \<open>\<open>int(s)\<close> on a string: surrounding whitespace is dropped, one sign is
  allowed, the rest must be a decimal literal; anything else raises \<open>ValueError\<close>.\<close>

definition py_int :: "string \<Rightarrow> error + int" where
  "py_int s =
     (let t = strip s;
          neg = (case t of [] \<Rightarrow> False | c # cs \<Rightarrow> c = CHR ''-'');
          body = (case t of [] \<Rightarrow> [] | c # cs \<Rightarrow> if c = CHR ''-'' \<or> c = CHR ''+'' then cs else t)
      in if int_body_ok body
         then Inr ((if neg then - 1 else 1) * decimal (filter (\<lambda>c. c \<noteq> CHR ''_'') body))
         else Inl ValueError)"

text \<open>The strings that \<open>int()\<close> accepts: an integer literal with an optional sign,
  whitespace allowed around it and nowhere else.\<close>

definition int_literal :: "string \<Rightarrow> bool" where
  "int_literal s =
     (let t = strip s
      in int_body_ok (case t of [] \<Rightarrow> []
                      | c # cs \<Rightarrow> if c = CHR ''-'' \<or> c = CHR ''+'' then cs else t))"

text \<open>A list comprehension whose element expression may raise: the first failure,
  from the left, is the one raised.\<close>

fun map_result :: "('a \<Rightarrow> error + 'b) \<Rightarrow> 'a list \<Rightarrow> error + 'b list" where
  "map_result f [] = Inr []"
| "map_result f (x # xs) =
     (case f x of
        Inl e \<Rightarrow> Inl e
      | Inr y \<Rightarrow> (case map_result f xs of Inl e \<Rightarrow> Inl e | Inr ys \<Rightarrow> Inr (y # ys)))"

text \<open>Python's \<open><\<close> on two lists of integers: the first position where they differ
  decides; when there is none, the shorter list is the smaller one.\<close>

fun py_list_less :: "int list \<Rightarrow> int list \<Rightarrow> bool" where
  "py_list_less [] [] = False"
| "py_list_less [] (y # ys) = True"
| "py_list_less (x # xs) [] = False"
| "py_list_less (x # xs) (y # ys) = (if x = y then py_list_less xs ys else x < y)"

text \<open>Truthiness of an optional string: \<open>None\<close> and \<open>''\<close> are false.\<close>

fun truthy :: "string option \<Rightarrow> bool" where
  "truthy None = False"
| "truthy (Some s) = (s \<noteq> [])"


section \<open>Version ordering (environment.py)\<close>

text \<open>\<open>_to_version_tuple\<close>: \<open>[int(x) for x in version_string.split('.')]\<close>.\<close>

definition to_version_tuple :: "string \<Rightarrow> error + int list" where
  "to_version_tuple version_string = map_result py_int (split_on CHR ''.'' version_string)"

text \<open>\<open>_is_older_version\<close>: both arguments are parsed, the first one first, and the
  tuples compared.\<close>

definition is_older_version :: "string \<Rightarrow> string \<Rightarrow> error + bool" where
  "is_older_version older newer =
     (case to_version_tuple older of
        Inl e \<Rightarrow> Inl e
      | Inr a \<Rightarrow> (case to_version_tuple newer of
                   Inl e \<Rightarrow> Inl e
                 | Inr b \<Rightarrow> Inr (py_list_less a b)))"

text \<open>A component is numeric when it is a non-empty string of decimal digits; a version
  string is well formed when every dot-separated component is.\<close>

definition numeric :: "string \<Rightarrow> bool" where
  "numeric c = (c \<noteq> [] \<and> list_all is_digit c)"

definition well_formed :: "string \<Rightarrow> bool" where
  "well_formed v = list_all numeric (split_on CHR ''.'' v)"


section \<open>The executors (executor.py)\<close>

text \<open>
  The file system the executors act on. A path is the list of its components below the
  root; the root itself (the empty list) always is a directory. Besides the entries, the
  model records every call made to \<open>os\<close>, \<open>os.path\<close> and \<open>shutil\<close>, in order.
  Symbolic links and permissions are not modelled.
\<close>

datatype node = File | Dir

type_synonym path = "string list"

datatype fs_call = Exists path | Isdir path | Rmtree path | Makedirs path

record filesystem =
  entries :: "path \<rightharpoonup> node"
  calls :: "fs_call list"

definition lookup :: "(path \<rightharpoonup> node) \<Rightarrow> path \<Rightarrow> node option" where
  "lookup es p = (if p = [] then Some Dir else es p)"

definition os_path_exists :: "(path \<rightharpoonup> node) \<Rightarrow> path \<Rightarrow> bool" where
  "os_path_exists es p = (lookup es p \<noteq> None)"

definition os_path_isdir :: "(path \<rightharpoonup> node) \<Rightarrow> path \<Rightarrow> bool" where
  "os_path_isdir es p = (lookup es p = Some Dir)"

text \<open>\<open>shutil.rmtree\<close>: a directory goes with everything below it; a regular file or a
  missing path raises and removes nothing, and so does the root.\<close>

definition shutil_rmtree :: "(path \<rightharpoonup> node) \<Rightarrow> path \<Rightarrow> error option \<times> (path \<rightharpoonup> node)" where
  "shutil_rmtree es p =
     (if p \<noteq> [] \<and> es p = Some Dir then (None, \<lambda>q. if prefix p q then None else es q)
      else (Some OSError, es))"

text \<open>\<open>os.mkdir\<close>: the path must not exist and its parent must be a directory.\<close>

definition os_mkdir :: "(path \<rightharpoonup> node) \<Rightarrow> path \<Rightarrow> error option \<times> (path \<rightharpoonup> node)" where
  "os_mkdir es p =
     (if lookup es p \<noteq> None then (Some OSError, es)
      else if lookup es (butlast p) = Some Dir then (None, es(p \<mapsto> Dir))
      else (Some OSError, es))"

text \<open>\<open>os.makedirs\<close>: a missing parent is created first, recursively, then the leaf
  with \<open>os.mkdir\<close>. When a step raises, the directories made so far stay.\<close>

function makedirs :: "(path \<rightharpoonup> node) \<Rightarrow> path \<Rightarrow> error option \<times> (path \<rightharpoonup> node)" where
  "makedirs es p =
     (if p \<noteq> [] \<and> lookup es (butlast p) = None
      then (case makedirs es (butlast p) of
              (Some e, es') \<Rightarrow> (Some e, es')
            | (None, es') \<Rightarrow> os_mkdir es' p)
      else os_mkdir es p)"
  by pat_completeness auto
termination
  by (relation "measure (\<lambda>(es, p). length p)") auto

declare makedirs.simps [simp del]

definition record_call :: "fs_call \<Rightarrow> filesystem \<Rightarrow> filesystem" where
  "record_call c fs = fs\<lparr>calls := calls fs @ [c]\<rparr>"

definition do_rmtree :: "filesystem \<Rightarrow> path \<Rightarrow> error option \<times> filesystem" where
  "do_rmtree fs p =
     (case shutil_rmtree (entries fs) p of
        (r, es) \<Rightarrow> (r, (record_call (Rmtree p) fs)\<lparr>entries := es\<rparr>))"

definition do_makedirs :: "filesystem \<Rightarrow> path \<Rightarrow> error option \<times> filesystem" where
  "do_makedirs fs p =
     (case makedirs (entries fs) p of
        (r, es) \<Rightarrow> (r, (record_call (Makedirs p) fs)\<lparr>entries := es\<rparr>))"

text \<open>\<open>Executor.ensure_dir_exists\<close>. The result is the exception raised, if any, and
  the file system as the call leaves it.\<close>

definition Executor_ensure_dir_exists ::
    "filesystem \<Rightarrow> path \<Rightarrow> bool \<Rightarrow> error option \<times> filesystem" where
  "Executor_ensure_dir_exists fs p ensure_empty =
     (if ensure_empty then
        (let fs1 = record_call (Exists p) fs in
         if os_path_exists (entries fs1) p then
           (case do_rmtree fs1 p of
              (Some e, fs2) \<Rightarrow> (Some e, fs2)
            | (None, fs2) \<Rightarrow> do_makedirs fs2 p)
         else do_makedirs fs1 p)
      else
        (let fs1 = record_call (Isdir p) fs in
         if os_path_isdir (entries fs1) p then (None, fs1)
         else do_makedirs fs1 p))"

text \<open>\<open>DryRunExecutor.ensure_dir_exists\<close>: the body is \<open>pass\<close>.\<close>

definition DryRunExecutor_ensure_dir_exists ::
    "filesystem \<Rightarrow> path \<Rightarrow> bool \<Rightarrow> error option \<times> filesystem" where
  "DryRunExecutor_ensure_dir_exists fs p ensure_empty = (None, fs)"

text \<open>A small workspace: a build directory that holds an object file and a
  subdirectory, and a log file beside it.\<close>

definition sample_entries :: "path \<rightharpoonup> node" where
  "sample_entries =
     [[''ws''] \<mapsto> Dir,
      [''ws'', ''build''] \<mapsto> Dir,
      [''ws'', ''build'', ''a.o''] \<mapsto> File,
      [''ws'', ''build'', ''sub''] \<mapsto> Dir,
      [''ws'', ''log.txt''] \<mapsto> File]"

definition sample_fs :: filesystem where
  "sample_fs = \<lparr>entries = sample_entries, calls = []\<rparr>"


section \<open>The build environment (environment.py)\<close>

text \<open>Modelled from the spec: the enumerations \<open>System\<close> and \<open>Compiler\<close> of the
  module \<open>common\<close>, which is not among the sources. The source names
  \<open>System.WINDOWS\<close>, \<open>System.OSX\<close> and the four compilers; the spec lists Linux as
  the third target system.\<close>

datatype System = WINDOWS | LINUX | OSX

datatype Compiler = GCC | CLANG | INTEL | MSVC

text \<open>
  The command runner (\<open>factory.cmd_runner\<close>) is a collaborator outside the sources.
  The model records each call made on it, with its arguments, in order; \<open>sep\<close> is
  \<open>None\<close> where the caller passes no separator.
\<close>

datatype runner_call =
    ImportEnv string
  | SetEnvVar string "string option"
  | AppendToEnvVar string string "string option"
  | PrependToEnvVar string string "string option"

text \<open>
  Everything the build environment reads from outside itself: the functions of
  \<open>os\<close> and \<open>os.path\<close> of the platform, the modules \<open>cmake\<close> and \<open>slaves\<close>, and
  the answers of the command runner. What the command runner answers may depend on the
  calls made on it before (sourcing a script changes \<open>PATH\<close>), so these functions
  take the calls recorded so far. \<open>os_path_join\<close> joins two components; a call of
  \<open>os.path.join\<close> with more arguments joins them from the left. \<open>find_executable\<close>
  gives \<open>None\<close> for a name that is not found, and \<open>import_env\<close> the exception it
  raises, if any.
\<close>

record world =
  os_path_join :: "string \<Rightarrow> string \<Rightarrow> string"
  os_path_dirname :: "string \<Rightarrow> string"
  os_path_expanduser :: "string \<Rightarrow> string"
  os_pathsep :: string
  path_exists :: "string \<Rightarrow> bool"
  path_isfile :: "string \<Rightarrow> bool"
  listdir :: "string \<Rightarrow> error + string list"
  get_cmake_version :: "runner_call list \<Rightarrow> string \<Rightarrow> error + string"
  get_default_build_parallelism :: "string \<Rightarrow> int"
  get_environment_subshell :: "string \<Rightarrow> string option"
  get_default_gcc_for_libstdcxx :: "string \<Rightarrow> string option"
  find_executable :: "runner_call list \<Rightarrow> string \<Rightarrow> string option"
  import_env :: "runner_call list \<Rightarrow> string \<Rightarrow> error option"

text \<open>The attributes of \<open>BuildEnvironment\<close>, and the calls made on its command runner
  so far. (\<open>_workspace\<close> is only read by the static analyzer handler and is left
  out.)\<close>

record BuildEnvironment =
  system :: "System option"
  compiler :: "Compiler option"
  compiler_version :: "string option"
  c_compiler :: "string option"
  cxx_compiler :: "string option"
  gcov_command :: "string option"
  cmake_command :: string
  ctest_command :: string
  cmake_version :: "string option"
  cmake_generator :: "string option"
  cuda_root :: "string option"
  cuda_host_compiler :: "string option"
  amdappsdk_root :: "string option"
  clang_analyzer_output_dir :: "string option"
  extra_cmake_options :: "string \<rightharpoonup> string"
  build_prefix_cmd :: "string list option"
  node_name :: string
  cmake_base_dir :: "string option"
  build_jobs :: int
  runner_calls :: "runner_call list"

text \<open>A handler returns the exception it raised, if any, together with the build
  environment as it is at that moment: what a handler assigned before raising stays
  assigned.\<close>

type_synonym outcome = "error option \<times> BuildEnvironment"

definition set_env_var :: "string \<Rightarrow> string option \<Rightarrow> BuildEnvironment \<Rightarrow> BuildEnvironment" where
  "set_env_var variable val self =
     self\<lparr>runner_calls := runner_calls self @ [SetEnvVar variable val]\<rparr>"

definition append_to_env_var :: "string \<Rightarrow> string \<Rightarrow> BuildEnvironment \<Rightarrow> BuildEnvironment" where
  "append_to_env_var variable val self =
     self\<lparr>runner_calls := runner_calls self @ [AppendToEnvVar variable val None]\<rparr>"

definition prepend_path_env :: "world \<Rightarrow> string \<Rightarrow> BuildEnvironment \<Rightarrow> BuildEnvironment" where
  "prepend_path_env W p self =
     self\<lparr>runner_calls := runner_calls self
        @ [PrependToEnvVar ''PATH'' (os_path_expanduser W p) (Some (os_pathsep W))]\<rparr>"

definition runner_import_env :: "world \<Rightarrow> string \<Rightarrow> BuildEnvironment \<Rightarrow> outcome" where
  "runner_import_env W cmd self =
     (import_env W (runner_calls self) cmd,
      self\<lparr>runner_calls := runner_calls self @ [ImportEnv cmd]\<rparr>)"

definition run_env_script :: "world \<Rightarrow> string \<Rightarrow> BuildEnvironment \<Rightarrow> outcome" where
  "run_env_script W env_cmd self =
     runner_import_env W (env_cmd @ '' && '' @ cmake_command self @ '' -E environment'') self"

text \<open>\<open>_init_system\<close>. (\<open>_init_core_dump\<close> raises a resource limit of the process and
  swallows every exception; it changes nothing that is modelled.)\<close>

definition init_system :: "world \<Rightarrow> BuildEnvironment \<Rightarrow> BuildEnvironment" where
  "init_system W self =
     (if system self = Some WINDOWS
      then self\<lparr>cmake_generator := Some ''NMake Makefiles JOM'',
                cmake_base_dir := Some (''c:'' @ [CHR 0x5C] @ ''utils'')\<rparr>
      else
        (let s1 = prepend_path_env W ''~/bin'' self;
             s2 = (if system s1 = Some OSX
                   then set_env_var ''CMAKE_PREFIX_PATH'' (Some ''/opt/local'') s1
                   else s1)
         in s2\<lparr>cmake_base_dir := Some ''/opt/cmake''\<rparr>))"

text \<open>\<open>BuildEnvironment.__init__\<close>, from the \<open>system\<close> and the node name of the
  factory and the calls already made on its command runner.\<close>

definition BuildEnvironment_init ::
    "world \<Rightarrow> System option \<Rightarrow> string \<Rightarrow> runner_call list \<Rightarrow> outcome" where
  "BuildEnvironment_init W sys node made =
     (let self = \<lparr>system = sys, compiler = None, compiler_version = None,
                  c_compiler = None, cxx_compiler = None, gcov_command = None,
                  cmake_command = ''cmake'', ctest_command = ''ctest'',
                  cmake_version = None, cmake_generator = None, cuda_root = None,
                  cuda_host_compiler = None, amdappsdk_root = None,
                  clang_analyzer_output_dir = None, extra_cmake_options = Map.empty,
                  build_prefix_cmd = None, node_name = node, cmake_base_dir = None,
                  build_jobs = get_default_build_parallelism W node,
                  runner_calls = made\<rparr>;
          environment_command = get_environment_subshell W node;
          r = (case environment_command of
                 None \<Rightarrow> (None, self)
               | Some c \<Rightarrow>
                   if c \<noteq> []
                   then runner_import_env W
                          (c @ '' -- '' @ cmake_command self @ '' -E environment'') self
                   else (None, self))
      in case r of
           (Some e, s) \<Rightarrow> (Some e, s)
         | (None, s) \<Rightarrow> if system s \<noteq> None then (None, init_system W s) else (None, s))"

text \<open>\<open>_init_cmake\<close>.\<close>

definition init_cmake :: "world \<Rightarrow> string \<Rightarrow> BuildEnvironment \<Rightarrow> outcome" where
  "init_cmake W version self =
     (case cmake_base_dir self of
        None \<Rightarrow> (Some TypeError, self)
      | Some base \<Rightarrow>
          (let d1 = os_path_join W (os_path_join W base (''cmake-'' @ version)) ''bin'';
               cmake_bin_dir =
                 (if \<not> path_exists W d1
                  then os_path_join W (os_path_join W base version) ''bin''
                  else d1)
           in (None, self\<lparr>cmake_command := os_path_join W cmake_bin_dir ''cmake'',
                           ctest_command := os_path_join W cmake_bin_dir ''ctest'',
                           cmake_version := Some version\<rparr>)))"

text \<open>The path that \<open>_get_available_cmake_versions\<close> tests for one directory entry.\<close>

definition cmake_binary :: "world \<Rightarrow> System option \<Rightarrow> string \<Rightarrow> string \<Rightarrow> string" where
  "cmake_binary W sys base cmake_dir =
     (let cmd = os_path_join W (os_path_join W (os_path_join W base cmake_dir) ''bin'') ''cmake''
      in if sys = Some WINDOWS \<and> \<not> suffix ''.exe'' cmd then cmd @ ''.exe'' else cmd)"

text \<open>\<open>_get_available_cmake_versions\<close>. \<open>list.sort(key=...)\<close> computes the key of
  every element first, so a version token that does not parse raises before anything is
  sorted; the sort is stable. Without a base directory \<open>os.listdir(None)\<close> lists the
  current directory and \<open>os.path.join(None, ...)\<close> raises on its first entry.\<close>

definition get_available_cmake_versions :: "world \<Rightarrow> BuildEnvironment \<Rightarrow> error + string list" where
  "get_available_cmake_versions W self =
     (case cmake_base_dir self of
        None \<Rightarrow>
          (case listdir W ''.'' of
             Inl e \<Rightarrow> Inl e
           | Inr [] \<Rightarrow> Inr []
           | Inr (d # ds) \<Rightarrow> Inl TypeError)
      | Some base \<Rightarrow>
          (case listdir W base of
             Inl e \<Rightarrow> Inl e
           | Inr dirs \<Rightarrow>
               (let versions =
                      map (\<lambda>d. last (split_on CHR ''-'' d))
                        (filter (\<lambda>d. path_isfile W (cmake_binary W (system self) base d)) dirs)
                in case map_result to_version_tuple versions of
                     Inl e \<Rightarrow> Inl e
                   | Inr keys \<Rightarrow> Inr (map snd (sort_key fst (zip keys versions))))))"

text \<open>The loop of \<open>_set_cmake_minimum_version\<close> over the available versions. Its body
  has no \<open>break\<close> and no \<open>return\<close>.\<close>

fun scan_versions :: "world \<Rightarrow> string \<Rightarrow> string list \<Rightarrow> BuildEnvironment \<Rightarrow> outcome" where
  "scan_versions W version [] self = (None, self)"
| "scan_versions W version (test_version # rest) self =
     (case is_older_version test_version version of
        Inl e \<Rightarrow> (Some e, self)
      | Inr older \<Rightarrow>
          if \<not> older
          then (case init_cmake W test_version self of
                  (Some e, s) \<Rightarrow> (Some e, s)
                | (None, s) \<Rightarrow> scan_versions W version rest s)
          else scan_versions W version rest self)"

text \<open>\<open>_set_cmake_minimum_version\<close>.\<close>

definition set_cmake_minimum_version :: "world \<Rightarrow> string option \<Rightarrow> BuildEnvironment \<Rightarrow> outcome" where
  "set_cmake_minimum_version W version self =
     (case version of
        None \<Rightarrow> (None, self)
      | Some v \<Rightarrow>
          if truthy (cmake_version self) \<or> v = [] then (None, self)
          else
            (case get_cmake_version W (runner_calls self) (cmake_command self) of
               Inl e \<Rightarrow> (Some e, self)
             | Inr current_version \<Rightarrow>
                 (let self1 = self\<lparr>cmake_version := Some current_version\<rparr>
                  in case is_older_version current_version v of
                       Inl e \<Rightarrow> (Some e, self1)
                     | Inr older \<Rightarrow>
                         if \<not> older then (None, self1)
                         else
                           (case get_available_cmake_versions W self1 of
                              Inl e \<Rightarrow> (Some e, self1)
                            | Inr available_versions \<Rightarrow>
                                scan_versions W v available_versions self1))))"

text \<open>\<open>_manage_stdlib_from_gcc\<close>. The format template is given by the text before and
  after its one placeholder \<open>{gcctoolchain}\<close>; \<open>None\<close> is the handler's \<open>None\<close>.
  \<open>os.path.dirname\<close> raises when the executable was not found.\<close>

definition manage_stdlib_from_gcc ::
    "world \<Rightarrow> (string \<times> string) option \<Rightarrow> BuildEnvironment \<Rightarrow> outcome" where
  "manage_stdlib_from_gcc W format_for_stdlib_flag self =
     (let gcc_name =
            (if compiler self = Some GCC then c_compiler self
             else if compiler self = Some CLANG \<or> compiler self = Some INTEL
             then get_default_gcc_for_libstdcxx W (node_name self)
             else None)
      in case gcc_name of
           None \<Rightarrow> (None, self)
         | Some name \<Rightarrow>
             if name = [] then (None, self)
             else
               (case find_executable W (runner_calls self) name of
                  None \<Rightarrow> (Some TypeError, self)
                | Some gcc_exe \<Rightarrow>
                    (let gcc_toolchain_path = os_path_join W (os_path_dirname W gcc_exe) ''..''
                     in if gcc_toolchain_path = [] then (None, self)
                        else
                          (let s1 =
                                 (case format_for_stdlib_flag of
                                    None \<Rightarrow> self
                                  | Some (pre, post) \<Rightarrow>
                                      (let stdlibflag = pre @ gcc_toolchain_path @ post
                                       in append_to_env_var ''CXXFLAGS'' stdlibflag
                                            (append_to_env_var ''CFLAGS'' stdlibflag self)))
                           in (None, s1\<lparr>extra_cmake_options :=
                                 (extra_cmake_options s1)(''CMAKE_CXX_LINK_FLAGS'' \<mapsto>
                                    ''-Wl,-rpath,'' @ gcc_toolchain_path @ ''/lib64 -L''
                                      @ gcc_toolchain_path @ ''/lib64'')\<rparr>)))))"

text \<open>\<open>_init_gcc\<close>.\<close>

definition init_gcc :: "world \<Rightarrow> string \<Rightarrow> BuildEnvironment \<Rightarrow> outcome" where
  "init_gcc W version self =
     manage_stdlib_from_gcc W None
       (self\<lparr>compiler := Some GCC,
              compiler_version := Some version,
              c_compiler := Some (''gcc-'' @ version),
              cxx_compiler := Some (''g++-'' @ version),
              gcov_command := Some (''gcov-'' @ version)\<rparr>)"

text \<open>\<open>_init_clang\<close>.\<close>

definition init_clang :: "world \<Rightarrow> string \<Rightarrow> BuildEnvironment \<Rightarrow> outcome" where
  "init_clang W version self =
     (case manage_stdlib_from_gcc W (Some (''--gcc-toolchain='', ''''))
             (self\<lparr>compiler := Some CLANG,
                    compiler_version := Some version,
                    c_compiler := Some (''clang-'' @ version),
                    cxx_compiler := Some (''clang++-'' @ version)\<rparr>) of
        (Some e, s) \<Rightarrow> (Some e, s)
      | (None, s) \<Rightarrow>
          (case c_compiler s of
             None \<Rightarrow> (Some TypeError, s)
           | Some name \<Rightarrow>
               (case find_executable W (runner_calls s) name of
                  None \<Rightarrow> (Some TypeError, s)
                | Some clang_exe \<Rightarrow>
                    (let clang_path = os_path_dirname W clang_exe;
                         symbolizer_path = os_path_join W clang_path ''llvm-symbolizer''
                     in (None,
                         set_env_var ''LD_LIBRARY_PATH'' (Some (os_path_join W clang_path ''../lib''))
                           (set_env_var ''ASAN_SYMBOLIZER_PATH'' (Some symbolizer_path) s))))))"

text \<open>\<open>re.match('^(\d\d)$', version)\<close>: two decimal digits, and \<open>$\<close> also matches
  before one final newline.\<close>

definition two_digits :: "string \<Rightarrow> bool" where
  "two_digits version =
     (case version of
        [a, b] \<Rightarrow> is_digit a \<and> is_digit b
      | [a, b, c] \<Rightarrow> is_digit a \<and> is_digit b \<and> c = CHR 0x0A
      | _ \<Rightarrow> False)"

text \<open>A Windows path in a command line: the components joined by backslashes, in
  double quotes.\<close>

fun backslashed :: "string list \<Rightarrow> string" where
  "backslashed [] = []"
| "backslashed [c] = c"
| "backslashed (c # d # cs) = c @ [CHR 0x5C] @ backslashed (d # cs)"

definition quoted :: "string list \<Rightarrow> string" where
  "quoted cs = [CHR 0x22] @ backslashed cs @ [CHR 0x22]"

definition invalid_icc_version :: "string \<Rightarrow> error" where
  "invalid_icc_version version =
     ConfigurationError (''invalid icc version: got icc-'' @ version
       @ ''. Try a version with two digits, e.g. 18 for 2018 release.'')"

text \<open>\<open>_init_icc\<close>. On Windows the script is given the Visual Studio version that
  \<open>_init_msvc\<close> stored in \<open>compiler_version\<close>; \<open>str + None\<close> raises, while
  \<open>str.format\<close> prints \<open>None\<close>. \<open>compiler_version\<close> is assigned last.\<close>

definition init_icc :: "world \<Rightarrow> string \<Rightarrow> BuildEnvironment \<Rightarrow> outcome" where
  "init_icc W version self =
     (let r =
        (if system self = Some WINDOWS then
           (if compiler self = None \<or> compiler self \<noteq> Some MSVC
            then (Some (ConfigurationError ''need to specify msvc version for icc on Windows''), self)
            else
              (let s1 = self\<lparr>c_compiler := Some ''icl'', cxx_compiler := Some ''icl'',
                              compiler := Some INTEL\<rparr>;
                   s2 = s1\<lparr>extra_cmake_options :=
                          (extra_cmake_options s1)(''CMAKE_EXE_LINKER_FLAGS'' \<mapsto>
                             [CHR 0x22] @ ''/machine:x64'' @ [CHR 0x22])\<rparr>
               in if version = ''15.0'' then
                    (case compiler_version s2 of
                       None \<Rightarrow> (Some TypeError, s2)
                     | Some vs \<Rightarrow>
                         run_env_script W
                           (quoted [''C:'', ''Program Files (x86)'', ''Intel'', ''Composer XE 2015'',
                                    ''bin'', ''compilervars.bat''] @ '' intel64 vs'' @ vs) s2)
                  else if version = ''16.0'' then
                    (case compiler_version s2 of
                       None \<Rightarrow> (Some TypeError, s2)
                     | Some vs \<Rightarrow>
                         run_env_script W
                           (quoted [''C:'', ''Program Files (x86)'', ''IntelSWTools'',
                                    ''compilers_and_libraries_2016'', ''windows'', ''bin'',
                                    ''compilervars.bat''] @ '' intel64 vs'' @ vs) s2)
                  else if two_digits version then
                    run_env_script W
                      (quoted [''C:'', ''Program Files (x86)'', ''IntelSWTools'',
                               ''compilers_and_libraries_20'' @ version, ''windows'', ''bin'',
                               ''compilervars.bat'']
                         @ '' intel64 vs''
                         @ (case compiler_version s2 of None \<Rightarrow> ''None'' | Some vs \<Rightarrow> vs)) s2
                  else (Some (invalid_icc_version version), s2)))
         else
           (let s1 = self\<lparr>c_compiler := Some ''icc'', cxx_compiler := Some ''icpc'',
                           compiler := Some INTEL\<rparr>;
                r1 =
                  (if two_digits version then
                     run_env_script W
                       (''. /opt/intel/compilers_and_libraries_20'' @ version
                          @ ''/linux/bin/compilervars.sh intel64'') s1
                   else if version = ''16.0'' then
                     run_env_script W
                       ''. /opt/intel/compilers_and_libraries_2016/linux/bin/compilervars.sh intel64'' s1
                   else if version = ''15.0'' then
                     run_env_script W ''. /opt/intel/composer_xe_2015/bin/compilervars.sh intel64'' s1
                   else if version = ''14.0'' then
                     run_env_script W ''. /opt/intel/composer_xe_2013_sp1/bin/compilervars.sh intel64'' s1
                   else if version = ''13.0'' then
                     run_env_script W ''. /opt/intel/composer_xe_2013/bin/compilervars.sh intel64'' s1
                   else if version = ''12.1'' then
                     run_env_script W ''. /opt/intel/composer_xe_2011_sp1/bin/compilervars.sh intel64'' s1
                   else (Some (invalid_icc_version version), s1))
            in case r1 of
                 (Some e, s) \<Rightarrow> (Some e, s)
               | (None, s) \<Rightarrow> manage_stdlib_from_gcc W (Some (''-gcc-name='', ''/bin/gcc'')) s))
      in case r of
           (Some e, s) \<Rightarrow> (Some e, s)
         | (None, s) \<Rightarrow> (None, s\<lparr>compiler_version := Some version\<rparr>))"

text \<open>\<open>_init_msvc\<close>.\<close>

definition init_msvc :: "world \<Rightarrow> string \<Rightarrow> BuildEnvironment \<Rightarrow> outcome" where
  "init_msvc W version self =
     (let s1 = self\<lparr>compiler := Some MSVC, compiler_version := Some version\<rparr>
      in if version = ''2010'' then
           run_env_script W
             (quoted [''C:'', ''Program Files (x86)'', ''Microsoft Visual Studio 10.0'', ''VC'',
                      ''vcvarsall.bat''] @ '' amd64'') s1
         else if version = ''2013'' then
           run_env_script W
             (quoted [''C:'', ''Program Files (x86)'', ''Microsoft Visual Studio 12.0'', ''VC'',
                      ''vcvarsall.bat''] @ '' amd64'') s1
         else if version = ''2015'' then
           run_env_script W
             (quoted [''C:'', ''Program Files (x86)'', ''Microsoft Visual Studio 14.0'', ''VC'',
                      ''vcvarsall.bat''] @ '' amd64'') s1
         else (Some (ConfigurationError
                 (''only Visual Studio 2010, 2013, and 2015 are supported, got msvc-'' @ version)),
               s1))"

text \<open>The invariant of the data model: a compiler version is recorded exactly when a
  compiler is.\<close>

definition version_iff_compiler :: "BuildEnvironment \<Rightarrow> bool" where
  "version_iff_compiler self = ((compiler_version self \<noteq> None) = (compiler self \<noteq> None))"


section \<open>A build node for examples\<close>

text \<open>\<open>os.path.join\<close> and \<open>os.path.dirname\<close> as \<open>posixpath\<close> defines them.\<close>

definition posix_join :: "string \<Rightarrow> string \<Rightarrow> string" where
  "posix_join a b =
     (if take 1 b = ''/'' then b
      else if a = [] \<or> last a = CHR ''/'' then a @ b
      else a @ ''/'' @ b)"

definition posix_dirname :: "string \<Rightarrow> string" where
  "posix_dirname p =
     (let head = rev (dropWhile (\<lambda>c. c \<noteq> CHR ''/'') (rev p))
      in if head \<noteq> [] \<and> \<not> list_all (\<lambda>c. c = CHR ''/'') head
         then rev (dropWhile (\<lambda>c. c = CHR ''/'') (rev head))
         else head)"

text \<open>A Linux node: \<open>cmake\<close> on the path reports 3.5; \<open>/opt/cmake\<close> holds three
  installations and a directory without a binary; \<open>gcc-7\<close>, \<open>gcc-5\<close> and
  \<open>clang-6.0\<close> are found; the node's companion GCC is \<open>gcc-5\<close>; sourcing a script
  never fails.\<close>

definition sample_world :: world where
  "sample_world =
     \<lparr>os_path_join = posix_join,
      os_path_dirname = posix_dirname,
      os_path_expanduser = (\<lambda>p. if take 1 p = ''~'' then ''/home/jenkins'' @ drop 1 p else p),
      os_pathsep = '':'',
      path_exists = (\<lambda>p. p \<in> set [''/opt/cmake/cmake-3.4.3/bin'', ''/opt/cmake/cmake-3.12/bin'',
                                     ''/opt/cmake/cmake-3.14/bin'']),
      path_isfile = (\<lambda>p. p \<in> set [''/opt/cmake/cmake-3.4.3/bin/cmake'',
                                     ''/opt/cmake/cmake-3.12/bin/cmake'',
                                     ''/opt/cmake/cmake-3.14/bin/cmake'']),
      listdir = (\<lambda>d. if d = ''/opt/cmake''
                      then Inr [''cmake-3.14'', ''doc'', ''cmake-3.4.3'', ''cmake-3.12'']
                      else Inl OSError),
      get_cmake_version = (\<lambda>h c. if c = ''cmake'' then Inr ''3.5'' else Inl OSError),
      get_default_build_parallelism = (\<lambda>n. 4),
      get_environment_subshell = (\<lambda>n. None),
      get_default_gcc_for_libstdcxx = (\<lambda>n. Some ''gcc-5''),
      find_executable = (\<lambda>h n. if n = ''gcc-7'' then Some ''/usr/bin/gcc-7''
                               else if n = ''gcc-5'' then Some ''/opt/gcc-5/bin/gcc-5''
                               else if n = ''clang-6.0'' then Some ''/opt/llvm-6.0/bin/clang-6.0''
                               else None),
      import_env = (\<lambda>h c. None)\<rparr>"

definition sample_env :: BuildEnvironment where
  "sample_env = snd (BuildEnvironment_init sample_world (Some LINUX) ''bs_nix1310'' [])"


section \<open>Properties of the version ordering\<close>

lemma digit_not_space: "is_digit c \<Longrightarrow> \<not> is_space c"
  by (auto simp: is_digit_def is_space_def)

lemma digit_not_sign:
  "is_digit c \<Longrightarrow> c \<noteq> CHR ''-'' \<and> c \<noteq> CHR ''+'' \<and> c \<noteq> CHR ''_''"
  by (auto simp: is_digit_def)

lemma strip_numeric: "numeric c \<Longrightarrow> strip c = c"
proof -
  assume n: "numeric c"
  then obtain x xs where c: "c = x # xs" by (cases c) (auto simp: numeric_def)
  have dx: "is_digit x" using n c by (simp add: numeric_def)
  have d1: "dropWhile is_space c = c" using c dx digit_not_space by simp
  have "rev c \<noteq> []" using c by simp
  then obtain y ys where r: "rev c = y # ys" by (cases "rev c") auto
  have "y \<in> set c" using r by (metis list.set_intros(1) set_rev)
  then have "is_digit y" using n by (auto simp: numeric_def list_all_iff)
  then have "dropWhile is_space (rev c) = rev c" using r digit_not_space by simp
  then show ?thesis using d1 by (simp add: strip_def)
qed

lemma int_body_ok_digits: "cs \<noteq> [] \<Longrightarrow> list_all is_digit cs \<Longrightarrow> int_body_ok cs"
  by (induction cs rule: int_body_ok.induct) (auto dest: digit_not_sign)

lemma filter_digits: "list_all is_digit cs \<Longrightarrow> filter (\<lambda>c. c \<noteq> CHR ''_'') cs = cs"
  by (induction cs) (auto dest: digit_not_sign)

lemma py_int_numeric: "numeric c \<Longrightarrow> py_int c = Inr (decimal c)"
proof -
  assume n: "numeric c"
  then obtain x xs where c: "c = x # xs" by (cases c) (auto simp: numeric_def)
  have dx: "is_digit x" using n c by (simp add: numeric_def)
  have s: "strip c = c" using n by (rule strip_numeric)
  have ok: "int_body_ok c" using n by (simp add: numeric_def int_body_ok_digits)
  have f: "filter (\<lambda>c. c \<noteq> CHR ''_'') c = c" using n by (simp add: numeric_def filter_digits)
  show ?thesis
    using ok f digit_not_sign[OF dx] unfolding py_int_def s by (simp add: c)
qed

lemma map_result_numeric:
  "list_all numeric cs \<Longrightarrow> map_result py_int cs = Inr (map decimal cs)"
  by (induction cs) (auto simp: py_int_numeric)

lemma to_version_tuple_well_formed:
  "well_formed v \<Longrightarrow> to_version_tuple v = Inr (map decimal (split_on CHR ''.'' v))"
  by (simp add: well_formed_def to_version_tuple_def map_result_numeric)

lemma py_list_less_iff: "py_list_less a b \<longleftrightarrow> a < b"
  by (induction a b rule: py_list_less.induct) auto

lemma is_older_version_parsed:
  "to_version_tuple a = Inr ta \<Longrightarrow> to_version_tuple b = Inr tb \<Longrightarrow>
   is_older_version a b = Inr (ta < tb)"
  by (simp add: is_older_version_def py_list_less_iff)

text \<open>
  C2. For version strings \<open>a\<close>, \<open>b\<close>, \<open>c\<close> whose dot-separated components are all
  numeric, \<open>_to_version_tuple\<close> returns the components read as decimal integers, and
  \<open>_is_older_version a b\<close> is the lexicographic comparison of these tuples. It is a
  strict order: irreflexive, asymmetric, transitive, and two versions are comparable
  unless their tuples are equal. A tuple that is a proper prefix of another is older.
  In particular 4.9 is older than 5.0, 5.0 is not older than 5.0, and 5.0.1 is not
  older than 5.0.
\<close>

theorem is_older_version_is_lexicographic_strict_order:
  assumes "well_formed a" and "well_formed b" and "well_formed c"
  shows "to_version_tuple a = Inr (map decimal (split_on CHR ''.'' a))
       \<and> is_older_version a b
           = Inr ((map decimal (split_on CHR ''.'' a), map decimal (split_on CHR ''.'' b))
                    \<in> lexord {(x, y). x < y})
       \<and> is_older_version a a = Inr False
       \<and> (is_older_version a b = Inr True \<longrightarrow> is_older_version b a = Inr False)
       \<and> (is_older_version a b = Inr True \<and> is_older_version b c = Inr True
            \<longrightarrow> is_older_version a c = Inr True)
       \<and> (is_older_version a b = Inr True \<or> is_older_version b a = Inr True
            \<or> to_version_tuple a = to_version_tuple b)
       \<and> (strict_prefix (map decimal (split_on CHR ''.'' a)) (map decimal (split_on CHR ''.'' b))
            \<longrightarrow> is_older_version a b = Inr True)
       \<and> is_older_version ''4.9'' ''5.0'' = Inr True
       \<and> is_older_version ''5.0'' ''5.0'' = Inr False
       \<and> is_older_version ''5.0.1'' ''5.0'' = Inr False"
proof -
  let ?t = "\<lambda>v. map decimal (split_on CHR ''.'' v)"
  have ta: "to_version_tuple a = Inr (?t a)" and tb: "to_version_tuple b = Inr (?t b)"
    and tc: "to_version_tuple c = Inr (?t c)"
    using assms by (simp_all add: to_version_tuple_well_formed)
  have ab: "is_older_version a b = Inr (?t a < ?t b)" using ta tb by (rule is_older_version_parsed)
  have ba: "is_older_version b a = Inr (?t b < ?t a)" using tb ta by (rule is_older_version_parsed)
  have bc: "is_older_version b c = Inr (?t b < ?t c)" using tb tc by (rule is_older_version_parsed)
  have ac: "is_older_version a c = Inr (?t a < ?t c)" using ta tc by (rule is_older_version_parsed)
  have aa: "is_older_version a a = Inr (?t a < ?t a)" using ta ta by (rule is_older_version_parsed)
  have lex: "(?t a < ?t b) = ((?t a, ?t b) \<in> lexord {(x, y). x < y})"
    by (simp add: list_less_def)
  have pre: "strict_prefix (?t a) (?t b) \<Longrightarrow> ?t a < ?t b"
    by (auto simp: list_less_def lexord_def strict_prefix_def prefix_def neq_Nil_conv)
  have e1: "is_older_version ''4.9'' ''5.0'' = Inr True" by code_simp
  have e2: "is_older_version ''5.0'' ''5.0'' = Inr False" by code_simp
  have e3: "is_older_version ''5.0.1'' ''5.0'' = Inr False" by code_simp
  show ?thesis
    unfolding ab ba bc ac aa ta tb
    using lex pre e1 e2 e3 by auto
qed

theorem is_older_version_is_lexicographic_strict_order_witness:
  "well_formed ''3.5'' \<and> well_formed ''3.10'' \<and> well_formed ''3.10.2''
   \<and> to_version_tuple ''3.5'' = Inr [3, 5]
   \<and> is_older_version ''3.5'' ''3.10'' = Inr True
   \<and> is_older_version ''3.10'' ''3.5'' = Inr False
   \<and> is_older_version ''3.10'' ''3.10.2'' = Inr True
   \<and> is_older_version ''3.5'' ''3.10.2'' = Inr True
   \<and> is_older_version ''3.5'' ''3.5'' = Inr False"
proof -
  have a: "well_formed ''3.5''" by code_simp
  have b: "well_formed ''3.10''" by code_simp
  have c: "well_formed ''3.10.2''" by code_simp
  have t: "map decimal (split_on CHR ''.'' ''3.5'') = [3, 5]" by code_simp
  have ab: "is_older_version ''3.5'' ''3.10'' = Inr True" by code_simp
  have bc: "is_older_version ''3.10'' ''3.10.2'' = Inr True" by code_simp
  show ?thesis
    using is_older_version_is_lexicographic_strict_order [OF a b c] a b c t ab bc
    by simp
qed

section \<open>Properties of the executors\<close>

lemma butlast_not_prefix: "p \<noteq> [] \<Longrightarrow> \<not> prefix p (butlast p)"
  by (metis append_butlast_last_id append_self_conv prefix_order.antisym prefix_def not_Cons_self2 prefixI)

lemma makedirs_after_rmtree:
  assumes "p \<noteq> []" and "os_path_isdir es (butlast p)"
  shows "makedirs (\<lambda>q. if prefix p q then None else es q) p
         = (None, \<lambda>q. if prefix p q then (if q = p then Some Dir else None) else es q)"
proof -
  let ?es = "\<lambda>q. if prefix p q then None else es q"
  have par: "lookup ?es (butlast p) = Some Dir"
    using assms butlast_not_prefix[of p] by (auto simp: lookup_def os_path_isdir_def)
  have self: "lookup ?es p = None" using assms by (simp add: lookup_def)
  have "makedirs ?es p = os_mkdir ?es p"
    by (subst makedirs.simps) (simp add: par)
  also have "\<dots> = (None, ?es(p \<mapsto> Dir))" by (simp add: os_mkdir_def par self)
  also have "?es(p \<mapsto> Dir) = (\<lambda>q. if prefix p q then (if q = p then Some Dir else None) else es q)"
    by (auto simp: fun_eq_iff)
  finally show ?thesis .
qed

lemma makedirs_existing:
  assumes "lookup es p \<noteq> None" and "os_path_isdir es (butlast p)"
  shows "makedirs es p = (Some OSError, es)"
proof -
  have "makedirs es p = os_mkdir es p"
    using assms by (subst makedirs.simps) (simp add: os_path_isdir_def)
  then show ?thesis using assms by (simp add: os_mkdir_def)
qed

text \<open>
  C9. For every path \<open>p\<close> that names an existing directory (empty or not) lying in a
  directory: \<open>Executor.ensure_dir_exists(p, ensure_empty=True)\<close> returns normally after
  the calls \<open>os.path.exists\<close>, \<open>shutil.rmtree\<close>, \<open>os.makedirs\<close>; afterwards \<open>p\<close> is
  a directory, nothing that was below \<open>p\<close> exists any more, and every path outside
  \<open>p\<close> is as before. \<open>DryRunExecutor.ensure_dir_exists\<close> returns the file system as it
  was and makes no call.
\<close>

theorem ensure_dir_exists_clears_directory:
  assumes "p \<noteq> []" and "entries fs p = Some Dir" and "os_path_isdir (entries fs) (butlast p)"
  shows "Executor_ensure_dir_exists fs p True
           = (None, \<lparr>entries = (\<lambda>q. if prefix p q then (if q = p then Some Dir else None)
                                       else entries fs q),
                      calls = calls fs @ [Exists p, Rmtree p, Makedirs p]\<rparr>)
       \<and> DryRunExecutor_ensure_dir_exists fs p True = (None, fs)"
  using assms
  by (simp add: Executor_ensure_dir_exists_def DryRunExecutor_ensure_dir_exists_def
      record_call_def os_path_exists_def lookup_def shutil_rmtree_def do_rmtree_def do_makedirs_def
      makedirs_after_rmtree)

theorem ensure_dir_exists_clears_directory_witness:
  "[''ws'', ''build''] \<noteq> [] \<and> entries sample_fs [''ws'', ''build''] = Some Dir
   \<and> os_path_isdir (entries sample_fs) (butlast [''ws'', ''build''])
   \<and> entries sample_fs [''ws'', ''build'', ''a.o''] = Some File
   \<and> fst (Executor_ensure_dir_exists sample_fs [''ws'', ''build''] True) = None
   \<and> entries (snd (Executor_ensure_dir_exists sample_fs [''ws'', ''build''] True))
        [''ws'', ''build''] = Some Dir
   \<and> entries (snd (Executor_ensure_dir_exists sample_fs [''ws'', ''build''] True))
        [''ws'', ''build'', ''a.o''] = None
   \<and> entries (snd (Executor_ensure_dir_exists sample_fs [''ws'', ''build''] True))
        [''ws'', ''build'', ''sub''] = None
   \<and> entries (snd (Executor_ensure_dir_exists sample_fs [''ws'', ''build''] True))
        [''ws'', ''log.txt''] = Some File
   \<and> calls (snd (Executor_ensure_dir_exists sample_fs [''ws'', ''build''] True))
        = [Exists [''ws'', ''build''], Rmtree [''ws'', ''build''], Makedirs [''ws'', ''build'']]
   \<and> DryRunExecutor_ensure_dir_exists sample_fs [''ws'', ''build''] True = (None, sample_fs)"
proof -
  have a: "[''ws'', ''build''] \<noteq> []" by simp
  have b: "entries sample_fs [''ws'', ''build''] = Some Dir"
    by (simp add: sample_fs_def sample_entries_def)
  have c: "os_path_isdir (entries sample_fs) (butlast [''ws'', ''build''])"
    by (simp add: sample_fs_def sample_entries_def os_path_isdir_def lookup_def)
  have d: "entries sample_fs [''ws'', ''build'', ''a.o''] = Some File"
    by (simp add: sample_fs_def sample_entries_def)
  have e: "entries sample_fs [''ws'', ''log.txt''] = Some File" "calls sample_fs = []"
    by (simp_all add: sample_fs_def sample_entries_def)
  show ?thesis
    using ensure_dir_exists_clears_directory [OF a b c] b c d e
    by simp
qed

text \<open>
  C10. When \<open>p\<close> is a directory, \<open>Executor.ensure_dir_exists(p, ensure_empty=False)\<close>
  returns normally after the one query \<open>os.path.isdir\<close>: no entry changes, and a
  second call does the same again. When \<open>p\<close> is a regular file there is no early return:
  the call goes on to \<open>os.makedirs\<close>, which raises \<open>OSError\<close> and changes nothing.
\<close>

theorem ensure_dir_exists_returns_early_on_directory:
  "(os_path_isdir (entries fs) p \<longrightarrow>
      Executor_ensure_dir_exists fs p False = (None, fs\<lparr>calls := calls fs @ [Isdir p]\<rparr>)
    \<and> Executor_ensure_dir_exists (snd (Executor_ensure_dir_exists fs p False)) p False
        = (None, fs\<lparr>calls := calls fs @ [Isdir p, Isdir p]\<rparr>))
   \<and> (entries fs p = Some File \<and> p \<noteq> [] \<and> os_path_isdir (entries fs) (butlast p) \<longrightarrow>
      Executor_ensure_dir_exists fs p False
        = (Some OSError, fs\<lparr>calls := calls fs @ [Isdir p, Makedirs p]\<rparr>))"
  by (auto simp: Executor_ensure_dir_exists_def record_call_def do_makedirs_def
      makedirs_existing os_path_isdir_def lookup_def)

theorem ensure_dir_exists_returns_early_on_directory_witness:
  "os_path_isdir (entries sample_fs) [''ws'', ''build'']
   \<and> Executor_ensure_dir_exists sample_fs [''ws'', ''build''] False
       = (None, sample_fs\<lparr>calls := [Isdir [''ws'', ''build'']]\<rparr>)
   \<and> entries (snd (Executor_ensure_dir_exists sample_fs [''ws'', ''build''] False))
        [''ws'', ''build'', ''a.o''] = Some File
   \<and> entries sample_fs [''ws'', ''log.txt''] = Some File
   \<and> os_path_isdir (entries sample_fs) (butlast [''ws'', ''log.txt''])
   \<and> Executor_ensure_dir_exists sample_fs [''ws'', ''log.txt''] False
       = (Some OSError, sample_fs\<lparr>calls := [Isdir [''ws'', ''log.txt''], Makedirs [''ws'', ''log.txt'']]\<rparr>)"
proof -
  have a: "os_path_isdir (entries sample_fs) [''ws'', ''build'']"
    by (simp add: sample_fs_def sample_entries_def os_path_isdir_def lookup_def)
  have b: "entries sample_fs [''ws'', ''log.txt''] = Some File"
          "entries sample_fs [''ws'', ''build'', ''a.o''] = Some File" "calls sample_fs = []"
    by (simp_all add: sample_fs_def sample_entries_def)
  have c: "os_path_isdir (entries sample_fs) (butlast [''ws'', ''log.txt''])"
    by (simp add: sample_fs_def sample_entries_def os_path_isdir_def lookup_def)
  show ?thesis
    using ensure_dir_exists_returns_early_on_directory [of sample_fs "[''ws'', ''build'']"]
          ensure_dir_exists_returns_early_on_directory [of sample_fs "[''ws'', ''log.txt'']"]
          a b c
    by simp
qed

section \<open>Properties of the compiler handlers\<close>

lemma manage_stdlib_no_flag_calls:
  "runner_calls (snd (manage_stdlib_from_gcc W None s)) = runner_calls s"
  by (auto simp: manage_stdlib_from_gcc_def Let_def split: option.splits)

lemma manage_stdlib_other_options:
  "k \<noteq> ''CMAKE_CXX_LINK_FLAGS'' \<Longrightarrow>
   extra_cmake_options (snd (manage_stdlib_from_gcc W fmt s)) k = extra_cmake_options s k"
  by (auto simp: manage_stdlib_from_gcc_def Let_def append_to_env_var_def
      split: option.splits prod.splits)

lemma manage_stdlib_fields:
  "compiler (snd (manage_stdlib_from_gcc W fmt s)) = compiler s"
  "compiler_version (snd (manage_stdlib_from_gcc W fmt s)) = compiler_version s"
  "c_compiler (snd (manage_stdlib_from_gcc W fmt s)) = c_compiler s"
  "cxx_compiler (snd (manage_stdlib_from_gcc W fmt s)) = cxx_compiler s"
  "gcov_command (snd (manage_stdlib_from_gcc W fmt s)) = gcov_command s"
  "system (snd (manage_stdlib_from_gcc W fmt s)) = system s"
  by (auto simp: manage_stdlib_from_gcc_def Let_def append_to_env_var_def
      split: option.splits prod.splits)

text \<open>
  C7. \<open>_init_gcc\<close> with version 7 sets the compiler to GCC 7 and the executables to
  \<open>gcc-7\<close>, \<open>g++-7\<close> and \<open>gcov-7\<close>, whatever else happens. It makes no call on
  the command runner, so \<open>CFLAGS\<close> and \<open>CXXFLAGS\<close> are not touched, and it leaves
  every entry of \<open>extra_cmake_options\<close> other than \<open>CMAKE_CXX_LINK_FLAGS\<close> as it
  was. When \<open>gcc-7\<close> is found, the handler returns normally and the one change beyond
  the five attributes is the entry \<open>CMAKE_CXX_LINK_FLAGS\<close>, the rpath and library path
  of the toolchain root.
\<close>

theorem init_gcc_7:
  "compiler (snd (init_gcc W ''7'' self)) = Some GCC
   \<and> compiler_version (snd (init_gcc W ''7'' self)) = Some ''7''
   \<and> c_compiler (snd (init_gcc W ''7'' self)) = Some ''gcc-7''
   \<and> cxx_compiler (snd (init_gcc W ''7'' self)) = Some ''g++-7''
   \<and> gcov_command (snd (init_gcc W ''7'' self)) = Some ''gcov-7''
   \<and> runner_calls (snd (init_gcc W ''7'' self)) = runner_calls self
   \<and> (\<forall>k. k \<noteq> ''CMAKE_CXX_LINK_FLAGS'' \<longrightarrow>
          extra_cmake_options (snd (init_gcc W ''7'' self)) k = extra_cmake_options self k)
   \<and> (find_executable W (runner_calls self) ''gcc-7'' = Some gcc_exe
        \<and> os_path_join W (os_path_dirname W gcc_exe) ''..'' = root \<and> root \<noteq> [] \<longrightarrow>
      init_gcc W ''7'' self
        = (None, self\<lparr>compiler := Some GCC, compiler_version := Some ''7'',
                        c_compiler := Some ''gcc-7'', cxx_compiler := Some ''g++-7'',
                        gcov_command := Some ''gcov-7'',
                        extra_cmake_options := (extra_cmake_options self)
                          (''CMAKE_CXX_LINK_FLAGS'' \<mapsto>
                             ''-Wl,-rpath,'' @ root @ ''/lib64 -L'' @ root @ ''/lib64'')\<rparr>))"
proof -
  have a: "compiler (snd (init_gcc W ''7'' self)) = Some GCC"
    "compiler_version (snd (init_gcc W ''7'' self)) = Some ''7''"
    "c_compiler (snd (init_gcc W ''7'' self)) = Some ''gcc-7''"
    "cxx_compiler (snd (init_gcc W ''7'' self)) = Some ''g++-7''"
    "gcov_command (snd (init_gcc W ''7'' self)) = Some ''gcov-7''"
    by (simp_all add: init_gcc_def manage_stdlib_fields)
  have b: "runner_calls (snd (init_gcc W ''7'' self)) = runner_calls self"
    by (simp add: init_gcc_def manage_stdlib_no_flag_calls)
  have c: "\<forall>k. k \<noteq> ''CMAKE_CXX_LINK_FLAGS'' \<longrightarrow>
          extra_cmake_options (snd (init_gcc W ''7'' self)) k = extra_cmake_options self k"
    by (simp add: init_gcc_def manage_stdlib_other_options)
  have d: "find_executable W (runner_calls self) ''gcc-7'' = Some gcc_exe
        \<and> os_path_join W (os_path_dirname W gcc_exe) ''..'' = root \<and> root \<noteq> [] \<longrightarrow>
      init_gcc W ''7'' self
        = (None, self\<lparr>compiler := Some GCC, compiler_version := Some ''7'',
                        c_compiler := Some ''gcc-7'', cxx_compiler := Some ''g++-7'',
                        gcov_command := Some ''gcov-7'',
                        extra_cmake_options := (extra_cmake_options self)
                          (''CMAKE_CXX_LINK_FLAGS'' \<mapsto>
                             ''-Wl,-rpath,'' @ root @ ''/lib64 -L'' @ root @ ''/lib64'')\<rparr>)"
    by (auto simp: init_gcc_def manage_stdlib_from_gcc_def Let_def)
  show ?thesis using a b c d by blast
qed

lemma sample_env_eq:
  "sample_env = \<lparr>system = Some LINUX, compiler = None, compiler_version = None,
                  c_compiler = None, cxx_compiler = None, gcov_command = None,
                  cmake_command = ''cmake'', ctest_command = ''ctest'',
                  cmake_version = None, cmake_generator = None, cuda_root = None,
                  cuda_host_compiler = None, amdappsdk_root = None,
                  clang_analyzer_output_dir = None, extra_cmake_options = Map.empty,
                  build_prefix_cmd = None, node_name = ''bs_nix1310'',
                  cmake_base_dir = Some ''/opt/cmake'',
                  build_jobs = 4,
                  runner_calls = [PrependToEnvVar ''PATH'' ''/home/jenkins/bin'' (Some '':'')]\<rparr>"
  by (simp add: sample_env_def BuildEnvironment_init_def sample_world_def init_system_def
      prepend_path_env_def Let_def)

lemma sample_gcc7:
  "find_executable sample_world h ''gcc-7'' = Some ''/usr/bin/gcc-7''"
  "os_path_join sample_world (os_path_dirname sample_world ''/usr/bin/gcc-7'') ''..'' = ''/usr/bin/..''"
  by (simp_all add: sample_world_def posix_join_def posix_dirname_def)

theorem init_gcc_7_witness:
  "find_executable sample_world (runner_calls sample_env) ''gcc-7'' = Some ''/usr/bin/gcc-7''
   \<and> os_path_join sample_world (os_path_dirname sample_world ''/usr/bin/gcc-7'') ''..'' = ''/usr/bin/..''
   \<and> ''/usr/bin/..'' \<noteq> []
   \<and> fst (init_gcc sample_world ''7'' sample_env) = None
   \<and> c_compiler (snd (init_gcc sample_world ''7'' sample_env)) = Some ''gcc-7''
   \<and> cxx_compiler (snd (init_gcc sample_world ''7'' sample_env)) = Some ''g++-7''
   \<and> gcov_command (snd (init_gcc sample_world ''7'' sample_env)) = Some ''gcov-7''
   \<and> runner_calls (snd (init_gcc sample_world ''7'' sample_env)) = runner_calls sample_env
   \<and> extra_cmake_options (snd (init_gcc sample_world ''7'' sample_env)) ''CMAKE_CXX_LINK_FLAGS''
       = Some ''-Wl,-rpath,/usr/bin/../lib64 -L/usr/bin/../lib64''
   \<and> extra_cmake_options (snd (init_gcc sample_world ''7'' sample_env)) ''CMAKE_PREFIX_PATH'' = None"
  using init_gcc_7 [of sample_world sample_env "''/usr/bin/gcc-7''" "''/usr/bin/..''"]
  by (simp add: sample_gcc7 sample_env_eq)

text \<open>
  C6. \<open>_init_clang\<close> with version 6.0, on a node whose companion GCC is found: the
  executables are \<open>clang-6.0\<close> and \<open>clang++-6.0\<close>; the first two calls the handler
  makes on the command runner are \<open>append_to_env_var\<close> for \<open>CFLAGS\<close> and for
  \<open>CXXFLAGS\<close>, with the flag \<open>--gcc-toolchain=\<close> followed by the toolchain root (it
  never calls \<open>set_env_var\<close> on them), and the calls made before stay. When
  \<open>clang-6.0\<close> itself is found, the handler returns normally, having set
  \<open>ASAN_SYMBOLIZER_PATH\<close> to \<open>llvm-symbolizer\<close> in the directory of that executable
  (and \<open>LD_LIBRARY_PATH\<close> beside it).
\<close>

theorem init_clang_6_0:
  assumes "get_default_gcc_for_libstdcxx W (node_name self) = Some gcc_name"
    and "gcc_name \<noteq> []"
    and "find_executable W (runner_calls self) gcc_name = Some gcc_exe"
    and "os_path_join W (os_path_dirname W gcc_exe) ''..'' = root"
    and "root \<noteq> []"
  shows "c_compiler (snd (init_clang W ''6.0'' self)) = Some ''clang-6.0''
       \<and> cxx_compiler (snd (init_clang W ''6.0'' self)) = Some ''clang++-6.0''
       \<and> take 2 (drop (length (runner_calls self)) (runner_calls (snd (init_clang W ''6.0'' self))))
           = [AppendToEnvVar ''CFLAGS'' (''--gcc-toolchain='' @ root) None,
              AppendToEnvVar ''CXXFLAGS'' (''--gcc-toolchain='' @ root) None]
       \<and> take (length (runner_calls self)) (runner_calls (snd (init_clang W ''6.0'' self)))
           = runner_calls self
       \<and> (find_executable W
             (runner_calls self
                @ [AppendToEnvVar ''CFLAGS'' (''--gcc-toolchain='' @ root) None,
                   AppendToEnvVar ''CXXFLAGS'' (''--gcc-toolchain='' @ root) None])
             ''clang-6.0'' = Some clang_exe \<longrightarrow>
           init_clang W ''6.0'' self
             = (None,
                self\<lparr>compiler := Some CLANG, compiler_version := Some ''6.0'',
                      c_compiler := Some ''clang-6.0'', cxx_compiler := Some ''clang++-6.0'',
                      extra_cmake_options := (extra_cmake_options self)
                        (''CMAKE_CXX_LINK_FLAGS'' \<mapsto>
                           ''-Wl,-rpath,'' @ root @ ''/lib64 -L'' @ root @ ''/lib64''),
                      runner_calls := runner_calls self
                        @ [AppendToEnvVar ''CFLAGS'' (''--gcc-toolchain='' @ root) None,
                           AppendToEnvVar ''CXXFLAGS'' (''--gcc-toolchain='' @ root) None,
                           SetEnvVar ''ASAN_SYMBOLIZER_PATH''
                             (Some (os_path_join W (os_path_dirname W clang_exe) ''llvm-symbolizer'')),
                           SetEnvVar ''LD_LIBRARY_PATH''
                             (Some (os_path_join W (os_path_dirname W clang_exe) ''../lib''))]\<rparr>))"
proof -
  let ?s0 = "self\<lparr>compiler := Some CLANG, compiler_version := Some ''6.0'',
                   c_compiler := Some ''clang-6.0'', cxx_compiler := Some ''clang++-6.0''\<rparr>"
  let ?flag = "''--gcc-toolchain='' @ root"
  let ?cs = "runner_calls self @ [AppendToEnvVar ''CFLAGS'' ?flag None,
                                   AppendToEnvVar ''CXXFLAGS'' ?flag None]"
  let ?s1 = "?s0\<lparr>runner_calls := ?cs,
                  extra_cmake_options := (extra_cmake_options self)
                        (''CMAKE_CXX_LINK_FLAGS'' \<mapsto>
                           ''-Wl,-rpath,'' @ root @ ''/lib64 -L'' @ root @ ''/lib64'')\<rparr>"
  have m: "manage_stdlib_from_gcc W (Some (''--gcc-toolchain='', '''')) ?s0 = (None, ?s1)"
    using assms by (simp add: manage_stdlib_from_gcc_def Let_def append_to_env_var_def)
  show ?thesis
  proof (cases "find_executable W ?cs ''clang-6.0''")
    case None
    then have "init_clang W ''6.0'' self = (Some TypeError, ?s1)"
      by (simp add: init_clang_def m)
    then show ?thesis using None by simp
  next
    case (Some exe)
    then have "init_clang W ''6.0'' self
       = (None, set_env_var ''LD_LIBRARY_PATH'' (Some (os_path_join W (os_path_dirname W exe) ''../lib''))
                  (set_env_var ''ASAN_SYMBOLIZER_PATH''
                     (Some (os_path_join W (os_path_dirname W exe) ''llvm-symbolizer'')) ?s1))"
      by (simp add: init_clang_def m Let_def)
    then show ?thesis using Some by (simp add: set_env_var_def)
  qed
qed

lemma sample_clang:
  "get_default_gcc_for_libstdcxx sample_world n = Some ''gcc-5''"
  "find_executable sample_world h ''gcc-5'' = Some ''/opt/gcc-5/bin/gcc-5''"
  "os_path_join sample_world (os_path_dirname sample_world ''/opt/gcc-5/bin/gcc-5'') ''..'' = ''/opt/gcc-5/bin/..''"
  "find_executable sample_world h ''clang-6.0'' = Some ''/opt/llvm-6.0/bin/clang-6.0''"
  "os_path_join sample_world (os_path_dirname sample_world ''/opt/llvm-6.0/bin/clang-6.0'') ''llvm-symbolizer''
     = ''/opt/llvm-6.0/bin/llvm-symbolizer''"
  "os_path_join sample_world (os_path_dirname sample_world ''/opt/llvm-6.0/bin/clang-6.0'') ''../lib''
     = ''/opt/llvm-6.0/bin/../lib''"
  by (simp_all add: sample_world_def posix_join_def posix_dirname_def)

theorem init_clang_6_0_witness:
  "get_default_gcc_for_libstdcxx sample_world (node_name sample_env) = Some ''gcc-5''
   \<and> ''gcc-5'' \<noteq> []
   \<and> find_executable sample_world (runner_calls sample_env) ''gcc-5'' = Some ''/opt/gcc-5/bin/gcc-5''
   \<and> os_path_join sample_world (os_path_dirname sample_world ''/opt/gcc-5/bin/gcc-5'') ''..''
       = ''/opt/gcc-5/bin/..''
   \<and> ''/opt/gcc-5/bin/..'' \<noteq> []
   \<and> fst (init_clang sample_world ''6.0'' sample_env) = None
   \<and> c_compiler (snd (init_clang sample_world ''6.0'' sample_env)) = Some ''clang-6.0''
   \<and> cxx_compiler (snd (init_clang sample_world ''6.0'' sample_env)) = Some ''clang++-6.0''
   \<and> runner_calls (snd (init_clang sample_world ''6.0'' sample_env))
       = [PrependToEnvVar ''PATH'' ''/home/jenkins/bin'' (Some '':''),
          AppendToEnvVar ''CFLAGS'' ''--gcc-toolchain=/opt/gcc-5/bin/..'' None,
          AppendToEnvVar ''CXXFLAGS'' ''--gcc-toolchain=/opt/gcc-5/bin/..'' None,
          SetEnvVar ''ASAN_SYMBOLIZER_PATH'' (Some ''/opt/llvm-6.0/bin/llvm-symbolizer''),
          SetEnvVar ''LD_LIBRARY_PATH'' (Some ''/opt/llvm-6.0/bin/../lib'')]"
proof -
  have a: "get_default_gcc_for_libstdcxx sample_world (node_name sample_env) = Some ''gcc-5''"
    by (rule sample_clang)
  have b: "''gcc-5'' \<noteq> []" by simp
  have c: "find_executable sample_world (runner_calls sample_env) ''gcc-5'' = Some ''/opt/gcc-5/bin/gcc-5''"
    by (rule sample_clang)
  have d: "os_path_join sample_world (os_path_dirname sample_world ''/opt/gcc-5/bin/gcc-5'') ''..''
       = ''/opt/gcc-5/bin/..''" by (rule sample_clang)
  have e: "''/opt/gcc-5/bin/..'' \<noteq> []" by simp
  show ?thesis
    using init_clang_6_0 [OF a b c d e, of "''/opt/llvm-6.0/bin/clang-6.0''"] a c d
    by (simp add: sample_clang sample_env_eq)
qed

lemma two_digits_99: "two_digits ''99''"
  by (simp add: two_digits_def is_digit_def)

lemma manage_stdlib_calls_prefix:
  "take (length (runner_calls s)) (runner_calls (snd (manage_stdlib_from_gcc W fmt s)))
     = runner_calls s"
  by (auto simp: manage_stdlib_from_gcc_def Let_def append_to_env_var_def
      split: option.splits prod.splits)

lemma manage_stdlib_error:
  "fst (manage_stdlib_from_gcc W fmt s) = None \<or> fst (manage_stdlib_from_gcc W fmt s) = Some TypeError"
  by (auto simp: manage_stdlib_from_gcc_def Let_def split: option.splits prod.splits)

text \<open>
  C3, as the code has it. On a system other than Windows \<open>_init_icc\<close> does not reject
  version 99: the string matches the two-digit pattern, so the handler sources
  \<open>/opt/intel/compilers_and_libraries_2099/linux/bin/compilervars.sh\<close> first. It ends
  normally, or with what sourcing the script raised, or with the \<open>TypeError\<close> of a
  companion GCC that is not found; when the script is sourced and the companion GCC is
  found it returns with the Intel compiler, version 99, selected. The handler's own
  \<open>ConfigurationError\<close> for an invalid version is raised for the versions that are
  neither two digits nor one of 16.0, 15.0, 14.0, 13.0, 12.1.
\<close>

theorem init_icc_99_is_accepted:
  assumes "system self \<noteq> Some WINDOWS"
  shows "(fst (init_icc W ''99'' self) = None
          \<or> fst (init_icc W ''99'' self) = Some TypeError
          \<or> fst (init_icc W ''99'' self)
               = import_env W (runner_calls self)
                   (''. /opt/intel/compilers_and_libraries_2099/linux/bin/compilervars.sh intel64 && ''
                      @ cmake_command self @ '' -E environment''))
       \<and> take (Suc (length (runner_calls self))) (runner_calls (snd (init_icc W ''99'' self)))
           = runner_calls self
               @ [ImportEnv
                    (''. /opt/intel/compilers_and_libraries_2099/linux/bin/compilervars.sh intel64 && ''
                       @ cmake_command self @ '' -E environment'')]
       \<and> (import_env W (runner_calls self)
              (''. /opt/intel/compilers_and_libraries_2099/linux/bin/compilervars.sh intel64 && ''
                 @ cmake_command self @ '' -E environment'') = None
            \<and> get_default_gcc_for_libstdcxx W (node_name self) = Some gcc_name \<and> gcc_name \<noteq> []
            \<and> find_executable W
                 (runner_calls self
                    @ [ImportEnv
                         (''. /opt/intel/compilers_and_libraries_2099/linux/bin/compilervars.sh intel64 && ''
                            @ cmake_command self @ '' -E environment'')])
                 gcc_name = Some gcc_exe
            \<and> os_path_join W (os_path_dirname W gcc_exe) ''..'' = root \<and> root \<noteq> []
           \<longrightarrow> init_icc W ''99'' self
                 = (None,
                    self\<lparr>c_compiler := Some ''icc'', cxx_compiler := Some ''icpc'',
                          compiler := Some INTEL, compiler_version := Some ''99'',
                          extra_cmake_options := (extra_cmake_options self)
                            (''CMAKE_CXX_LINK_FLAGS'' \<mapsto>
                               ''-Wl,-rpath,'' @ root @ ''/lib64 -L'' @ root @ ''/lib64''),
                          runner_calls := runner_calls self
                            @ [ImportEnv
                                 (''. /opt/intel/compilers_and_libraries_2099/linux/bin/compilervars.sh intel64 && ''
                                    @ cmake_command self @ '' -E environment''),
                               AppendToEnvVar ''CFLAGS'' (''-gcc-name='' @ root @ ''/bin/gcc'') None,
                               AppendToEnvVar ''CXXFLAGS'' (''-gcc-name='' @ root @ ''/bin/gcc'') None]\<rparr>))
       \<and> (\<not> two_digits v \<and> v \<notin> set [''16.0'', ''15.0'', ''14.0'', ''13.0'', ''12.1'']
           \<longrightarrow> init_icc W v self
                 = (Some (invalid_icc_version v),
                    self\<lparr>c_compiler := Some ''icc'', cxx_compiler := Some ''icpc'',
                          compiler := Some INTEL\<rparr>))"
proof -
  let ?s1 = "self\<lparr>c_compiler := Some ''icc'', cxx_compiler := Some ''icpc'',
                    compiler := Some INTEL\<rparr>"
  let ?script = "''. /opt/intel/compilers_and_libraries_2099/linux/bin/compilervars.sh intel64''"
  let ?cmd = "''. /opt/intel/compilers_and_libraries_2099/linux/bin/compilervars.sh intel64 && ''
                      @ cmake_command self @ '' -E environment''"
  let ?s2 = "?s1\<lparr>runner_calls := runner_calls self @ [ImportEnv ?cmd]\<rparr>"
  let ?m = "manage_stdlib_from_gcc W (Some (''-gcc-name='', ''/bin/gcc'')) ?s2"
  have run: "run_env_script W ?script ?s1 = (import_env W (runner_calls self) ?cmd, ?s2)"
    by (simp add: run_env_script_def runner_import_env_def)
  have pre: "take (Suc (length (runner_calls self))) (runner_calls (snd ?m))
               = runner_calls self @ [ImportEnv ?cmd]"
    using manage_stdlib_calls_prefix [of ?s2 W "Some (''-gcc-name='', ''/bin/gcc'')"] by simp
  have icc: "init_icc W ''99'' self
      = (case import_env W (runner_calls self) ?cmd of
           Some e \<Rightarrow> (Some e, ?s2)
         | None \<Rightarrow> (case ?m of (Some e, s) \<Rightarrow> (Some e, s)
                     | (None, s) \<Rightarrow> (None, s\<lparr>compiler_version := Some ''99''\<rparr>)))"
    using assms by (simp add: init_icc_def two_digits_99 run Let_def split: option.splits prod.splits)
  have c1: "fst (init_icc W ''99'' self) = None
          \<or> fst (init_icc W ''99'' self) = Some TypeError
          \<or> fst (init_icc W ''99'' self) = import_env W (runner_calls self) ?cmd"
    using manage_stdlib_error [of W "Some (''-gcc-name='', ''/bin/gcc'')" ?s2]
    by (auto simp: icc split: option.splits prod.splits)
  have c2: "take (Suc (length (runner_calls self))) (runner_calls (snd (init_icc W ''99'' self)))
           = runner_calls self @ [ImportEnv ?cmd]"
    using pre by (auto simp: icc split: option.splits prod.splits)
  have c3: "import_env W (runner_calls self) ?cmd = None
            \<and> get_default_gcc_for_libstdcxx W (node_name self) = Some gcc_name \<and> gcc_name \<noteq> []
            \<and> find_executable W (runner_calls self @ [ImportEnv ?cmd]) gcc_name = Some gcc_exe
            \<and> os_path_join W (os_path_dirname W gcc_exe) ''..'' = root \<and> root \<noteq> []
           \<longrightarrow> init_icc W ''99'' self
                 = (None,
                    self\<lparr>c_compiler := Some ''icc'', cxx_compiler := Some ''icpc'',
                          compiler := Some INTEL, compiler_version := Some ''99'',
                          extra_cmake_options := (extra_cmake_options self)
                            (''CMAKE_CXX_LINK_FLAGS'' \<mapsto>
                               ''-Wl,-rpath,'' @ root @ ''/lib64 -L'' @ root @ ''/lib64''),
                          runner_calls := runner_calls self
                            @ [ImportEnv ?cmd,
                               AppendToEnvVar ''CFLAGS'' (''-gcc-name='' @ root @ ''/bin/gcc'') None,
                               AppendToEnvVar ''CXXFLAGS'' (''-gcc-name='' @ root @ ''/bin/gcc'') None]\<rparr>)"
    by (auto simp: icc manage_stdlib_from_gcc_def Let_def append_to_env_var_def)
  have c4: "\<not> two_digits v \<and> v \<notin> set [''16.0'', ''15.0'', ''14.0'', ''13.0'', ''12.1'']
           \<longrightarrow> init_icc W v self = (Some (invalid_icc_version v), ?s1)"
    using assms by (simp add: init_icc_def Let_def)
  show ?thesis using c1 c2 c3 c4 by blast
qed


lemma sample_icc:
  "import_env sample_world h c = None"
  "get_default_gcc_for_libstdcxx sample_world n = Some ''gcc-5''"
  "find_executable sample_world h ''gcc-5'' = Some ''/opt/gcc-5/bin/gcc-5''"
  "os_path_join sample_world (os_path_dirname sample_world ''/opt/gcc-5/bin/gcc-5'') ''..'' = ''/opt/gcc-5/bin/..''"
  by (simp_all add: sample_world_def posix_join_def posix_dirname_def)

lemma not_two_digits_99_0: "\<not> two_digits ''99.0''"
  by (simp add: two_digits_def)

theorem init_icc_99_is_accepted_witness:
  "system sample_env \<noteq> Some WINDOWS
   \<and> init_icc sample_world ''99'' sample_env
       = (None,
          sample_env\<lparr>c_compiler := Some ''icc'', cxx_compiler := Some ''icpc'',
                compiler := Some INTEL, compiler_version := Some ''99'',
                extra_cmake_options := (extra_cmake_options sample_env)
                  (''CMAKE_CXX_LINK_FLAGS'' \<mapsto>
                     ''-Wl,-rpath,/opt/gcc-5/bin/../lib64 -L/opt/gcc-5/bin/../lib64''),
                runner_calls := runner_calls sample_env
                  @ [ImportEnv
                       ''. /opt/intel/compilers_and_libraries_2099/linux/bin/compilervars.sh intel64 && cmake -E environment'',
                     AppendToEnvVar ''CFLAGS'' ''-gcc-name=/opt/gcc-5/bin/../bin/gcc'' None,
                     AppendToEnvVar ''CXXFLAGS'' ''-gcc-name=/opt/gcc-5/bin/../bin/gcc'' None]\<rparr>)
   \<and> init_icc sample_world ''99.0'' sample_env
       = (Some (invalid_icc_version ''99.0''),
          sample_env\<lparr>c_compiler := Some ''icc'', cxx_compiler := Some ''icpc'',
                compiler := Some INTEL\<rparr>)"
proof -
  have a: "system sample_env \<noteq> Some WINDOWS" by (simp add: sample_env_eq)
  have c: "cmake_command sample_env = ''cmake''" by (simp add: sample_env_eq)
  show ?thesis
    using init_icc_99_is_accepted [OF a, of sample_world "''gcc-5''" "''/opt/gcc-5/bin/gcc-5''"
        "''/opt/gcc-5/bin/..''" "''99.0''"] a
    by (simp add: sample_icc not_two_digits_99_0 c)
qed

theorem init_icc_99_counterexample:
  "system sample_env = Some LINUX
   \<and> fst (init_icc sample_world ''99'' sample_env) = None
   \<and> compiler_version (snd (init_icc sample_world ''99'' sample_env)) = Some ''99''"
  by code_simp

lemma run_env_script_fields:
  "compiler (snd (run_env_script W c s)) = compiler s"
  "compiler_version (snd (run_env_script W c s)) = compiler_version s"
  "c_compiler (snd (run_env_script W c s)) = c_compiler s"
  "cxx_compiler (snd (run_env_script W c s)) = cxx_compiler s"
  "gcov_command (snd (run_env_script W c s)) = gcov_command s"
  "system (snd (run_env_script W c s)) = system s"
  by (simp_all add: run_env_script_def runner_import_env_def)

lemma init_gcc_fields:
  "compiler (snd (init_gcc W v s)) = Some GCC"
  "compiler_version (snd (init_gcc W v s)) = Some v"
  "c_compiler (snd (init_gcc W v s)) = Some (''gcc-'' @ v)"
  "cxx_compiler (snd (init_gcc W v s)) = Some (''g++-'' @ v)"
  "gcov_command (snd (init_gcc W v s)) = Some (''gcov-'' @ v)"
  by (simp_all add: init_gcc_def manage_stdlib_fields)

lemma init_clang_fields:
  "compiler (snd (init_clang W v s)) = Some CLANG"
  "compiler_version (snd (init_clang W v s)) = Some v"
  "c_compiler (snd (init_clang W v s)) = Some (''clang-'' @ v)"
  "cxx_compiler (snd (init_clang W v s)) = Some (''clang++-'' @ v)"
  "gcov_command (snd (init_clang W v s)) = gcov_command s"
proof -
  let ?s0 = "s\<lparr>compiler := Some CLANG, compiler_version := Some v,
                  c_compiler := Some (''clang-'' @ v), cxx_compiler := Some (''clang++-'' @ v)\<rparr>"
  let ?fmt = "Some (''--gcc-toolchain='', '''')"
  define s1 where "s1 = snd (manage_stdlib_from_gcc W ?fmt ?s0)"
  define r where "r = fst (manage_stdlib_from_gcc W ?fmt ?s0)"
  have m: "manage_stdlib_from_gcc W ?fmt ?s0 = (r, s1)" by (simp add: s1_def r_def)
  have f: "compiler s1 = Some CLANG" "compiler_version s1 = Some v"
    "c_compiler s1 = Some (''clang-'' @ v)" "cxx_compiler s1 = Some (''clang++-'' @ v)"
    "gcov_command s1 = gcov_command s"
    unfolding s1_def by (simp_all add: manage_stdlib_fields)
  have "init_clang W v s = (case (r, s1) of (Some e, s) \<Rightarrow> (Some e, s)
      | (None, s) \<Rightarrow>
          (case c_compiler s of
             None \<Rightarrow> (Some TypeError, s)
           | Some name \<Rightarrow>
               (case find_executable W (runner_calls s) name of
                  None \<Rightarrow> (Some TypeError, s)
                | Some clang_exe \<Rightarrow>
                    (let clang_path = os_path_dirname W clang_exe;
                         symbolizer_path = os_path_join W clang_path ''llvm-symbolizer''
                     in (None,
                         set_env_var ''LD_LIBRARY_PATH'' (Some (os_path_join W clang_path ''../lib''))
                           (set_env_var ''ASAN_SYMBOLIZER_PATH'' (Some symbolizer_path) s))))))"
    unfolding init_clang_def m [symmetric] ..
  then have g: "compiler (snd (init_clang W v s)) = compiler s1"
    "compiler_version (snd (init_clang W v s)) = compiler_version s1"
    "c_compiler (snd (init_clang W v s)) = c_compiler s1"
    "cxx_compiler (snd (init_clang W v s)) = cxx_compiler s1"
    "gcov_command (snd (init_clang W v s)) = gcov_command s1"
    by (simp_all add: Let_def set_env_var_def split: option.splits)
  show "compiler (snd (init_clang W v s)) = Some CLANG"
    "compiler_version (snd (init_clang W v s)) = Some v"
    "c_compiler (snd (init_clang W v s)) = Some (''clang-'' @ v)"
    "cxx_compiler (snd (init_clang W v s)) = Some (''clang++-'' @ v)"
    "gcov_command (snd (init_clang W v s)) = gcov_command s"
    unfolding g by (rule f)+
qed

lemma init_msvc_fields:
  "compiler (snd (init_msvc W v s)) = Some MSVC"
  "compiler_version (snd (init_msvc W v s)) = Some v"
  "c_compiler (snd (init_msvc W v s)) = c_compiler s"
  "cxx_compiler (snd (init_msvc W v s)) = cxx_compiler s"
  "gcov_command (snd (init_msvc W v s)) = gcov_command s"
  by (simp_all add: init_msvc_def Let_def run_env_script_fields)

lemma init_icc_windows_rejects:
  "system s = Some WINDOWS \<Longrightarrow> compiler s \<noteq> Some MSVC \<Longrightarrow>
   init_icc W v s = (Some (ConfigurationError ''need to specify msvc version for icc on Windows''), s)"
  by (auto simp: init_icc_def)

lemma init_icc_windows_fields:
  assumes "system s = Some WINDOWS" and "compiler s = Some MSVC"
  shows "compiler (snd (init_icc W v s)) = Some INTEL"
    and "c_compiler (snd (init_icc W v s)) = Some ''icl''"
    and "cxx_compiler (snd (init_icc W v s)) = Some ''icl''"
    and "gcov_command (snd (init_icc W v s)) = gcov_command s"
    and "compiler_version (snd (init_icc W v s))
           = (if fst (init_icc W v s) = None then Some v else compiler_version s)"
proof -
  let ?s1 = "s\<lparr>c_compiler := Some ''icl'', cxx_compiler := Some ''icl'', compiler := Some INTEL\<rparr>"
  let ?s2 = "?s1\<lparr>extra_cmake_options :=
                          (extra_cmake_options ?s1)(''CMAKE_EXE_LINKER_FLAGS'' \<mapsto>
                             [CHR 0x22] @ ''/machine:x64'' @ [CHR 0x22])\<rparr>"
  define r1 where "r1 =
                 (if v = ''15.0'' then
                    (case compiler_version ?s2 of
                       None \<Rightarrow> (Some TypeError, ?s2)
                     | Some vs \<Rightarrow>
                         run_env_script W
                           (quoted [''C:'', ''Program Files (x86)'', ''Intel'', ''Composer XE 2015'',
                                    ''bin'', ''compilervars.bat''] @ '' intel64 vs'' @ vs) ?s2)
                  else if v = ''16.0'' then
                    (case compiler_version ?s2 of
                       None \<Rightarrow> (Some TypeError, ?s2)
                     | Some vs \<Rightarrow>
                         run_env_script W
                           (quoted [''C:'', ''Program Files (x86)'', ''IntelSWTools'',
                                    ''compilers_and_libraries_2016'', ''windows'', ''bin'',
                                    ''compilervars.bat''] @ '' intel64 vs'' @ vs) ?s2)
                  else if two_digits v then
                    run_env_script W
                      (quoted [''C:'', ''Program Files (x86)'', ''IntelSWTools'',
                               ''compilers_and_libraries_20'' @ v, ''windows'', ''bin'',
                               ''compilervars.bat'']
                         @ '' intel64 vs''
                         @ (case compiler_version ?s2 of None \<Rightarrow> ''None'' | Some vs \<Rightarrow> vs)) ?s2
                  else (Some (invalid_icc_version v), ?s2))"
  have r1f: "compiler (snd r1) = Some INTEL" "c_compiler (snd r1) = Some ''icl''"
    "cxx_compiler (snd r1) = Some ''icl''" "gcov_command (snd r1) = gcov_command s"
    "compiler_version (snd r1) = compiler_version s"
    unfolding r1_def by (simp_all add: run_env_script_fields split: option.splits)
  have icc: "init_icc W v s = (case r1 of (Some e, s') \<Rightarrow> (Some e, s')
                               | (None, s') \<Rightarrow> (None, s'\<lparr>compiler_version := Some v\<rparr>))"
    using assms unfolding init_icc_def r1_def Let_def by simp
  show "compiler (snd (init_icc W v s)) = Some INTEL"
    and "c_compiler (snd (init_icc W v s)) = Some ''icl''"
    and "cxx_compiler (snd (init_icc W v s)) = Some ''icl''"
    and "gcov_command (snd (init_icc W v s)) = gcov_command s"
    and "compiler_version (snd (init_icc W v s))
           = (if fst (init_icc W v s) = None then Some v else compiler_version s)"
    using r1f by (auto simp: icc split: prod.splits option.splits)
qed

lemma init_icc_other_fields:
  assumes "system s \<noteq> Some WINDOWS"
  shows "compiler (snd (init_icc W v s)) = Some INTEL"
    and "c_compiler (snd (init_icc W v s)) = Some ''icc''"
    and "cxx_compiler (snd (init_icc W v s)) = Some ''icpc''"
    and "gcov_command (snd (init_icc W v s)) = gcov_command s"
    and "compiler_version (snd (init_icc W v s))
           = (if fst (init_icc W v s) = None then Some v else compiler_version s)"
proof -
  let ?s1 = "s\<lparr>c_compiler := Some ''icc'', cxx_compiler := Some ''icpc'', compiler := Some INTEL\<rparr>"
  let ?fmt = "Some (''-gcc-name='', ''/bin/gcc'')"
  define r1 where "r1 =
                  (if two_digits v then
                     run_env_script W
                       (''. /opt/intel/compilers_and_libraries_20'' @ v
                          @ ''/linux/bin/compilervars.sh intel64'') ?s1
                   else if v = ''16.0'' then
                     run_env_script W
                       ''. /opt/intel/compilers_and_libraries_2016/linux/bin/compilervars.sh intel64'' ?s1
                   else if v = ''15.0'' then
                     run_env_script W ''. /opt/intel/composer_xe_2015/bin/compilervars.sh intel64'' ?s1
                   else if v = ''14.0'' then
                     run_env_script W ''. /opt/intel/composer_xe_2013_sp1/bin/compilervars.sh intel64'' ?s1
                   else if v = ''13.0'' then
                     run_env_script W ''. /opt/intel/composer_xe_2013/bin/compilervars.sh intel64'' ?s1
                   else if v = ''12.1'' then
                     run_env_script W ''. /opt/intel/composer_xe_2011_sp1/bin/compilervars.sh intel64'' ?s1
                   else (Some (invalid_icc_version v), ?s1))"
  have r1f: "compiler (snd r1) = Some INTEL" "c_compiler (snd r1) = Some ''icc''"
    "cxx_compiler (snd r1) = Some ''icpc''" "gcov_command (snd r1) = gcov_command s"
    "compiler_version (snd r1) = compiler_version s"
    by (simp_all add: r1_def run_env_script_fields)
  define r2 where "r2 = (case r1 of (Some e, s') \<Rightarrow> (Some e, s')
                          | (None, s') \<Rightarrow> manage_stdlib_from_gcc W ?fmt s')"
  have r2f: "compiler (snd r2) = Some INTEL" "c_compiler (snd r2) = Some ''icc''"
    "cxx_compiler (snd r2) = Some ''icpc''" "gcov_command (snd r2) = gcov_command s"
    "compiler_version (snd r2) = compiler_version s"
    using r1f by (auto simp: r2_def manage_stdlib_fields split: prod.splits option.splits)
  have icc: "init_icc W v s = (case r2 of (Some e, s') \<Rightarrow> (Some e, s')
                               | (None, s') \<Rightarrow> (None, s'\<lparr>compiler_version := Some v\<rparr>))"
    using assms unfolding init_icc_def r2_def r1_def Let_def by simp
  show "compiler (snd (init_icc W v s)) = Some INTEL"
    and "c_compiler (snd (init_icc W v s)) = Some ''icc''"
    and "cxx_compiler (snd (init_icc W v s)) = Some ''icpc''"
    and "gcov_command (snd (init_icc W v s)) = gcov_command s"
    and "compiler_version (snd (init_icc W v s))
           = (if fst (init_icc W v s) = None then Some v else compiler_version s)"
    using r2f by (auto simp: icc split: prod.splits option.splits)
qed

lemma init_icc_cases:
  "(system self = Some WINDOWS \<and> compiler self \<noteq> Some MSVC
      \<and> init_icc W v self
          = (Some (ConfigurationError ''need to specify msvc version for icc on Windows''), self))
   \<or> ((system self = Some WINDOWS \<longrightarrow> compiler self = Some MSVC)
      \<and> compiler (snd (init_icc W v self)) = Some INTEL
      \<and> compiler_version (snd (init_icc W v self))
          = (if fst (init_icc W v self) = None then Some v else compiler_version self)
      \<and> c_compiler (snd (init_icc W v self))
          = Some (if system self = Some WINDOWS then ''icl'' else ''icc'')
      \<and> cxx_compiler (snd (init_icc W v self))
          = Some (if system self = Some WINDOWS then ''icl'' else ''icpc'')
      \<and> gcov_command (snd (init_icc W v self)) = gcov_command self)"
proof (cases "system self = Some WINDOWS")
  case False
  then show ?thesis using init_icc_other_fields [OF False, of W v] by simp
next
  case True
  show ?thesis
  proof (cases "compiler self = Some MSVC")
    case False
    then show ?thesis using init_icc_windows_rejects [OF True False, of W v] True by simp
  next
    case msvc: True
    show ?thesis using init_icc_windows_fields [OF True msvc, of W v] True msvc by simp
  qed
qed

text \<open>
  C4, as the code has it. A compiler handler called on any configuration (so also on
  one that an earlier handler of another family left) either raises or returns with
  \<open>compiler\<close> and \<open>compiler_version\<close> set to its own family and version. The GCC,
  Clang and Intel handlers also overwrite \<open>c_compiler\<close> and \<open>cxx_compiler\<close>; the
  MSVC handler assigns neither and leaves both as they were. Only the GCC handler
  assigns \<open>gcov_command\<close>: every other handler leaves it as it was, so after GCC it
  keeps the GCC value. On Windows the Intel handler raises \<open>ConfigurationError\<close> and
  changes nothing unless the compiler selected before is MSVC.
\<close>

theorem second_compiler_selection_overwrites:
  "(fst (init_gcc W v self) = None \<longrightarrow>
      compiler (snd (init_gcc W v self)) = Some GCC
      \<and> compiler_version (snd (init_gcc W v self)) = Some v
      \<and> c_compiler (snd (init_gcc W v self)) = Some (''gcc-'' @ v)
      \<and> cxx_compiler (snd (init_gcc W v self)) = Some (''g++-'' @ v)
      \<and> gcov_command (snd (init_gcc W v self)) = Some (''gcov-'' @ v))
   \<and> (fst (init_clang W v self) = None \<longrightarrow>
      compiler (snd (init_clang W v self)) = Some CLANG
      \<and> compiler_version (snd (init_clang W v self)) = Some v
      \<and> c_compiler (snd (init_clang W v self)) = Some (''clang-'' @ v)
      \<and> cxx_compiler (snd (init_clang W v self)) = Some (''clang++-'' @ v)
      \<and> gcov_command (snd (init_clang W v self)) = gcov_command self)
   \<and> (fst (init_icc W v self) = None \<longrightarrow>
      compiler (snd (init_icc W v self)) = Some INTEL
      \<and> compiler_version (snd (init_icc W v self)) = Some v
      \<and> c_compiler (snd (init_icc W v self))
          = Some (if system self = Some WINDOWS then ''icl'' else ''icc'')
      \<and> cxx_compiler (snd (init_icc W v self))
          = Some (if system self = Some WINDOWS then ''icl'' else ''icpc'')
      \<and> gcov_command (snd (init_icc W v self)) = gcov_command self)
   \<and> (fst (init_msvc W v self) = None \<longrightarrow>
      compiler (snd (init_msvc W v self)) = Some MSVC
      \<and> compiler_version (snd (init_msvc W v self)) = Some v
      \<and> c_compiler (snd (init_msvc W v self)) = c_compiler self
      \<and> cxx_compiler (snd (init_msvc W v self)) = cxx_compiler self
      \<and> gcov_command (snd (init_msvc W v self)) = gcov_command self)
   \<and> (system self = Some WINDOWS \<and> compiler self \<noteq> Some MSVC \<longrightarrow>
      init_icc W v self
        = (Some (ConfigurationError ''need to specify msvc version for icc on Windows''), self))"
  using init_icc_cases [of self W v]
  by (auto simp: init_gcc_fields init_clang_fields init_msvc_fields)

theorem second_compiler_selection_overwrites_witness:
  "fst (init_gcc sample_world ''7'' sample_env) = None
   \<and> gcov_command (snd (init_gcc sample_world ''7'' sample_env)) = Some ''gcov-7''
   \<and> fst (init_clang sample_world ''6.0'' (snd (init_gcc sample_world ''7'' sample_env))) = None
   \<and> compiler (snd (init_clang sample_world ''6.0'' (snd (init_gcc sample_world ''7'' sample_env))))
       = Some CLANG
   \<and> compiler_version (snd (init_clang sample_world ''6.0'' (snd (init_gcc sample_world ''7'' sample_env))))
       = Some ''6.0''
   \<and> c_compiler (snd (init_clang sample_world ''6.0'' (snd (init_gcc sample_world ''7'' sample_env))))
       = Some ''clang-6.0''
   \<and> cxx_compiler (snd (init_clang sample_world ''6.0'' (snd (init_gcc sample_world ''7'' sample_env))))
       = Some ''clang++-6.0''
   \<and> gcov_command (snd (init_clang sample_world ''6.0'' (snd (init_gcc sample_world ''7'' sample_env))))
       = Some ''gcov-7''
   \<and> fst (init_icc sample_world ''18'' (snd (init_gcc sample_world ''7'' sample_env))) = None
   \<and> c_compiler (snd (init_icc sample_world ''18'' (snd (init_gcc sample_world ''7'' sample_env))))
       = Some ''icc''
   \<and> gcov_command (snd (init_icc sample_world ''18'' (snd (init_gcc sample_world ''7'' sample_env))))
       = Some ''gcov-7''
   \<and> fst (init_msvc sample_world ''2015'' (snd (init_gcc sample_world ''7'' sample_env))) = None
   \<and> compiler (snd (init_msvc sample_world ''2015'' (snd (init_gcc sample_world ''7'' sample_env))))
       = Some MSVC
   \<and> c_compiler (snd (init_msvc sample_world ''2015'' (snd (init_gcc sample_world ''7'' sample_env))))
       = Some ''gcc-7''
   \<and> system (sample_env\<lparr>system := Some WINDOWS\<rparr>) = Some WINDOWS
   \<and> init_icc sample_world ''18''
         (snd (init_gcc sample_world ''7'' (sample_env\<lparr>system := Some WINDOWS\<rparr>)))
       = (Some (ConfigurationError ''need to specify msvc version for icc on Windows''),
          snd (init_gcc sample_world ''7'' (sample_env\<lparr>system := Some WINDOWS\<rparr>)))"
proof -
  let ?g7 = "snd (init_gcc sample_world ''7'' sample_env)"
  let ?w7 = "snd (init_gcc sample_world ''7'' (sample_env\<lparr>system := Some WINDOWS\<rparr>))"
  have h1: "fst (init_gcc sample_world ''7'' sample_env) = None" by code_simp
  have h2: "fst (init_clang sample_world ''6.0'' ?g7) = None" by code_simp
  have h3: "fst (init_icc sample_world ''18'' ?g7) = None" by code_simp
  have h4: "fst (init_msvc sample_world ''2015'' ?g7) = None" by code_simp
  have h5: "system ?w7 = Some WINDOWS" "compiler ?w7 \<noteq> Some MSVC" "system ?g7 \<noteq> Some WINDOWS"
    by (simp_all add: manage_stdlib_fields init_gcc_fields init_gcc_def sample_env_eq)
  show ?thesis
    using second_compiler_selection_overwrites [of sample_world "''7''" sample_env]
      second_compiler_selection_overwrites [of sample_world "''6.0''" ?g7]
      second_compiler_selection_overwrites [of sample_world "''18''" ?g7]
      second_compiler_selection_overwrites [of sample_world "''2015''" ?g7]
      second_compiler_selection_overwrites [of sample_world "''18''" ?w7]
      h1 h2 h3 h4 h5
    by (simp add: init_gcc_fields)
qed

theorem second_compiler_selection_counterexample:
  "fst (init_gcc sample_world ''7'' sample_env) = None
   \<and> gcov_command (snd (init_gcc sample_world ''7'' sample_env)) = Some ''gcov-7''
   \<and> fst (init_clang sample_world ''6.0'' (snd (init_gcc sample_world ''7'' sample_env))) = None
   \<and> compiler (snd (init_clang sample_world ''6.0'' (snd (init_gcc sample_world ''7'' sample_env))))
       = Some CLANG
   \<and> gcov_command (snd (init_clang sample_world ''6.0'' (snd (init_gcc sample_world ''7'' sample_env))))
       = Some ''gcov-7''"
  by code_simp

lemma BuildEnvironment_init_fields:
  "compiler (snd (BuildEnvironment_init W sys node made)) = None"
  "compiler_version (snd (BuildEnvironment_init W sys node made)) = None"
  by (simp_all add: BuildEnvironment_init_def Let_def runner_import_env_def init_system_def
      prepend_path_env_def set_env_var_def split: option.splits prod.splits)

text \<open>
  C5, as the code has it. A compiler version is recorded exactly when a compiler is:
  after construction; after every call of the GCC, Clang and MSVC handlers, whether it
  returns or raises; after every Intel handler call that returns; and after an Intel
  handler call that raises, when the invariant held before and either the system is
  Windows or a compiler was already selected. An Intel handler call that raises on a
  system other than Windows, on a configuration without a compiler version, leaves the
  compiler set to Intel and no version: there the invariant fails.
\<close>

theorem version_iff_compiler_except_failed_icc:
  "version_iff_compiler (snd (BuildEnvironment_init W sys node made))
   \<and> version_iff_compiler (snd (init_gcc W v self))
   \<and> version_iff_compiler (snd (init_clang W v self))
   \<and> version_iff_compiler (snd (init_msvc W v self))
   \<and> (fst (init_icc W v self) = None \<longrightarrow> version_iff_compiler (snd (init_icc W v self)))
   \<and> (version_iff_compiler self \<and> (system self = Some WINDOWS \<or> compiler self \<noteq> None) \<longrightarrow>
        version_iff_compiler (snd (init_icc W v self)))
   \<and> (fst (init_icc W v self) \<noteq> None \<and> system self \<noteq> Some WINDOWS
        \<and> compiler_version self = None \<longrightarrow>
        compiler (snd (init_icc W v self)) = Some INTEL
        \<and> compiler_version (snd (init_icc W v self)) = None
        \<and> \<not> version_iff_compiler (snd (init_icc W v self)))"
proof -
  have a: "version_iff_compiler (snd (BuildEnvironment_init W sys node made))"
    "version_iff_compiler (snd (init_gcc W v self))"
    "version_iff_compiler (snd (init_clang W v self))"
    "version_iff_compiler (snd (init_msvc W v self))"
    by (simp_all add: version_iff_compiler_def BuildEnvironment_init_fields init_gcc_fields
        init_clang_fields init_msvc_fields)
  have b: "(fst (init_icc W v self) = None \<longrightarrow> version_iff_compiler (snd (init_icc W v self)))
   \<and> (version_iff_compiler self \<and> (system self = Some WINDOWS \<or> compiler self \<noteq> None) \<longrightarrow>
        version_iff_compiler (snd (init_icc W v self)))
   \<and> (fst (init_icc W v self) \<noteq> None \<and> system self \<noteq> Some WINDOWS
        \<and> compiler_version self = None \<longrightarrow>
        compiler (snd (init_icc W v self)) = Some INTEL
        \<and> compiler_version (snd (init_icc W v self)) = None
        \<and> \<not> version_iff_compiler (snd (init_icc W v self)))"
    using init_icc_cases [of self W v]
    by (auto simp: version_iff_compiler_def)
  show ?thesis using a b by blast
qed


theorem version_iff_compiler_except_failed_icc_witness:
  "version_iff_compiler sample_env
   \<and> version_iff_compiler (snd (init_gcc sample_world ''7'' sample_env))
   \<and> version_iff_compiler (snd (init_clang sample_world ''6.0'' sample_env))
   \<and> version_iff_compiler (snd (init_msvc sample_world ''2015'' sample_env))
   \<and> fst (init_icc sample_world ''18'' sample_env) = None
   \<and> version_iff_compiler (snd (init_icc sample_world ''18'' sample_env))
   \<and> compiler (snd (init_gcc sample_world ''7'' sample_env)) \<noteq> None
   \<and> fst (init_icc sample_world ''99.0'' (snd (init_gcc sample_world ''7'' sample_env))) \<noteq> None
   \<and> version_iff_compiler (snd (init_icc sample_world ''99.0'' (snd (init_gcc sample_world ''7'' sample_env))))
   \<and> fst (init_icc sample_world ''99.0'' sample_env) \<noteq> None
   \<and> system sample_env \<noteq> Some WINDOWS
   \<and> compiler_version sample_env = None
   \<and> compiler (snd (init_icc sample_world ''99.0'' sample_env)) = Some INTEL
   \<and> compiler_version (snd (init_icc sample_world ''99.0'' sample_env)) = None
   \<and> \<not> version_iff_compiler (snd (init_icc sample_world ''99.0'' sample_env))"
proof -
  let ?g7 = "snd (init_gcc sample_world ''7'' sample_env)"
  have h1: "fst (init_icc sample_world ''18'' sample_env) = None" by code_simp
  have h2: "version_iff_compiler ?g7" "compiler ?g7 \<noteq> None"
    by (simp_all add: version_iff_compiler_def init_gcc_fields)
  have h3: "fst (init_icc sample_world ''99.0'' ?g7) \<noteq> None" by code_simp
  have h4: "fst (init_icc sample_world ''99.0'' sample_env) \<noteq> None" by code_simp
  have h5: "system sample_env \<noteq> Some WINDOWS" "compiler_version sample_env = None"
    by (simp_all add: sample_env_eq)
  show ?thesis
    using version_iff_compiler_except_failed_icc
            [of sample_world "Some LINUX" "''bs_nix1310''" "[]" "''7''" sample_env]
      version_iff_compiler_except_failed_icc
            [of sample_world "Some LINUX" "''bs_nix1310''" "[]" "''6.0''" sample_env]
      version_iff_compiler_except_failed_icc
            [of sample_world "Some LINUX" "''bs_nix1310''" "[]" "''2015''" sample_env]
      version_iff_compiler_except_failed_icc
            [of sample_world "Some LINUX" "''bs_nix1310''" "[]" "''18''" sample_env]
      version_iff_compiler_except_failed_icc
            [of sample_world "Some LINUX" "''bs_nix1310''" "[]" "''99.0''" ?g7]
      version_iff_compiler_except_failed_icc
            [of sample_world "Some LINUX" "''bs_nix1310''" "[]" "''99.0''" sample_env]
      h1 h2 h3 h4 h5
    by (simp add: sample_env_def)
qed

theorem version_iff_compiler_counterexample:
  "version_iff_compiler sample_env
   \<and> system sample_env = Some LINUX
   \<and> fst (init_icc sample_world ''99.0'' sample_env) = Some (invalid_icc_version ''99.0'')
   \<and> compiler (snd (init_icc sample_world ''99.0'' sample_env)) = Some INTEL
   \<and> compiler_version (snd (init_icc sample_world ''99.0'' sample_env)) = None
   \<and> \<not> version_iff_compiler (snd (init_icc sample_world ''99.0'' sample_env))"
  by code_simp

section \<open>Properties of the CMake version handler\<close>

lemma py_int_error: "py_int c = Inl e \<Longrightarrow> e = ValueError"
  by (auto simp: py_int_def Let_def split: if_splits)

lemma map_result_py_int_error: "map_result py_int cs = Inl e \<Longrightarrow> e = ValueError"
  by (induction cs arbitrary: e) (auto split: sum.splits dest: py_int_error)

lemma map_result_fails:
  "c \<in> set cs \<Longrightarrow> py_int c = Inl ValueError \<Longrightarrow> map_result py_int cs = Inl ValueError"
proof (induction cs)
  case Nil
  then show ?case by simp
next
  case (Cons x xs)
  show ?case
  proof (cases "py_int x")
    case (Inl e)
    then show ?thesis using py_int_error [OF Inl] by simp
  next
    case (Inr n)
    then have "c \<in> set xs" using Cons.prems by auto
    then have "map_result py_int xs = Inl ValueError" using Cons by simp
    then show ?thesis using Inr by simp
  qed
qed

lemma in_dropWhile: "x \<in> set xs \<Longrightarrow> \<not> P x \<Longrightarrow> x \<in> set (dropWhile P xs)"
  by (induction xs) auto

lemma in_strip: "ch \<in> set c \<Longrightarrow> \<not> is_space ch \<Longrightarrow> ch \<in> set (strip c)"
  by (simp add: strip_def in_dropWhile)

lemma int_body_ok_chars: "int_body_ok b \<Longrightarrow> ch \<in> set b \<Longrightarrow> is_digit ch \<or> ch = CHR ''_''"
  by (induction b rule: int_body_ok.induct) (auto split: if_splits)

lemma py_int_not_literal: "\<not> int_literal c \<Longrightarrow> py_int c = Inl ValueError"
  by (simp add: py_int_def int_literal_def Let_def)

lemma not_literal_by_character:
  assumes "c = [] \<or> (\<exists>ch \<in> set c. \<not> is_digit ch \<and> \<not> is_space ch \<and> ch \<notin> set ''+-_'')"
  shows "\<not> int_literal c"
proof -
  from assms consider "c = []" | ch where "ch \<in> set c" "\<not> is_digit ch" "\<not> is_space ch"
      "ch \<noteq> CHR ''+''" "ch \<noteq> CHR ''-''" "ch \<noteq> CHR ''_''"
    by auto
  then show ?thesis
  proof cases
    case 1
    then show ?thesis by (simp add: int_literal_def strip_def)
  next
    case 2
    let ?t = "strip c"
    let ?body = "case ?t of [] \<Rightarrow> [] | d # ds \<Rightarrow> if d = CHR ''-'' \<or> d = CHR ''+'' then ds else ?t"
    have "ch \<in> set ?t" using 2 by (simp add: in_strip)
    then have "ch \<in> set ?body" using 2 by (cases ?t) auto
    then have "\<not> int_body_ok ?body" using 2 int_body_ok_chars by blast
    then show ?thesis by (simp add: int_literal_def Let_def)
  qed
qed

lemma is_older_version_fails:
  "to_version_tuple newer = Inl ValueError \<Longrightarrow> is_older_version older newer = Inl ValueError"
  by (auto simp: is_older_version_def to_version_tuple_def split: sum.splits
      dest: map_result_py_int_error)

lemma is_older_version_fails_first:
  "to_version_tuple older = Inl ValueError \<Longrightarrow> is_older_version older newer = Inl ValueError"
  by (simp add: is_older_version_def)

lemma literal_examples:
  "\<not> int_literal []"
  "\<not> int_literal ''x''"
  "\<not> int_literal ''1 2''"
  "\<not> int_literal ''+-3''"
  "\<not> int_literal ''1__0''"
  "\<not> int_literal ''3_''"
  "\<not> int_literal '' ''"
  "\<not> int_literal ''-''"
  "\<not> int_literal [CHR 0x1C, CHR ''5'']"
  "int_literal ''+5''"
  "int_literal '' 1_0 ''"
  "int_literal [CHR 0xA0, CHR ''5'']"
  by code_simp+

text \<open>
  C8, as the code has it. When a dot-separated component of a version string is not an
  integer literal as \<open>int()\<close> reads it (whitespace around it, one optional sign, then
  decimal digits with single underscores allowed between two digits),
  \<open>_to_version_tuple\<close> raises \<open>ValueError\<close>, the exception of \<open>int()\<close>, and so does
  \<open>_is_older_version\<close> with that string as either argument. No handler converts it:
  \<open>_set_cmake_minimum_version\<close>, asked for such a minimum when no CMake version is
  recorded and the active version has been read, ends with \<open>ValueError\<close>, having
  recorded the active version. A component is no such literal when it is empty or holds
  a character that is neither a digit, whitespace as above, a sign nor an underscore;
  so are \<open>1 2\<close>, \<open>+-3\<close>, \<open>1__0\<close>, \<open>3_\<close>, a lone space, a lone sign and a
  component led by U+001C, while \<open>+5\<close>, \<open> 1_0 \<close> and a component led by U+00A0
  are literals.
\<close>

theorem malformed_version_raises_ValueError:
  assumes "c \<in> set (split_on CHR ''.'' version)"
    and "\<not> int_literal c"
  shows "to_version_tuple version = Inl ValueError
       \<and> is_older_version other version = Inl ValueError
       \<and> is_older_version version other = Inl ValueError
       \<and> (version \<noteq> [] \<and> \<not> truthy (cmake_version self)
            \<and> get_cmake_version W (runner_calls self) (cmake_command self) = Inr current
           \<longrightarrow> set_cmake_minimum_version W (Some version) self
                 = (Some ValueError, self\<lparr>cmake_version := Some current\<rparr>))
       \<and> (d = [] \<or> (\<exists>ch \<in> set d. \<not> is_digit ch \<and> \<not> is_space ch \<and> ch \<notin> set ''+-_'')
           \<longrightarrow> \<not> int_literal d)
       \<and> \<not> int_literal [] \<and> \<not> int_literal ''x'' \<and> \<not> int_literal ''1 2''
       \<and> \<not> int_literal ''+-3'' \<and> \<not> int_literal ''1__0'' \<and> \<not> int_literal ''3_''
       \<and> \<not> int_literal '' '' \<and> \<not> int_literal ''-''
       \<and> \<not> int_literal [CHR 0x1C, CHR ''5'']
       \<and> int_literal ''+5'' \<and> int_literal '' 1_0 '' \<and> int_literal [CHR 0xA0, CHR ''5'']"
proof -
  have p: "py_int c = Inl ValueError" using assms(2) by (rule py_int_not_literal)
  have t: "to_version_tuple version = Inl ValueError"
    unfolding to_version_tuple_def using assms(1) p by (rule map_result_fails)
  have o: "is_older_version x version = Inl ValueError" for x
    using t by (rule is_older_version_fails)
  have o': "is_older_version version other = Inl ValueError"
    using t by (rule is_older_version_fails_first)
  have h: "version \<noteq> [] \<and> \<not> truthy (cmake_version self)
            \<and> get_cmake_version W (runner_calls self) (cmake_command self) = Inr current
           \<longrightarrow> set_cmake_minimum_version W (Some version) self
                 = (Some ValueError, self\<lparr>cmake_version := Some current\<rparr>)"
    using o by (simp add: set_cmake_minimum_version_def Let_def)
  have n: "d = [] \<or> (\<exists>ch \<in> set d. \<not> is_digit ch \<and> \<not> is_space ch \<and> ch \<notin> set ''+-_'')
           \<longrightarrow> \<not> int_literal d"
    using not_literal_by_character [of d] by blast
  show ?thesis
    using t o [of other] o' h n literal_examples by blast
qed

lemma sample_cmake:
  "get_cmake_version sample_world h ''cmake'' = Inr ''3.5''"
  by (simp add: sample_world_def)

theorem malformed_version_raises_ValueError_witness:
  "''x'' \<in> set (split_on CHR ''.'' ''3.x'')
   \<and> \<not> int_literal ''x''
   \<and> to_version_tuple ''3.x'' = Inl ValueError
   \<and> is_older_version ''3.5'' ''3.x'' = Inl ValueError
   \<and> is_older_version ''3.x'' ''3.5'' = Inl ValueError
   \<and> set_cmake_minimum_version sample_world (Some ''3.x'') sample_env
       = (Some ValueError, sample_env\<lparr>cmake_version := Some ''3.5''\<rparr>)
   \<and> ''1__0'' \<in> set (split_on CHR ''.'' ''3.1__0'')
   \<and> \<not> int_literal ''1__0''
   \<and> to_version_tuple ''3.1__0'' = Inl ValueError"
proof -
  have a: "''x'' \<in> set (split_on CHR ''.'' ''3.x'')" by simp
  have b: "\<not> int_literal ''x''" by (rule literal_examples)
  have a': "''1__0'' \<in> set (split_on CHR ''.'' ''3.1__0'')" by simp
  have b': "\<not> int_literal ''1__0''" by (rule literal_examples)
  have c: "cmake_version sample_env = None" "cmake_command sample_env = ''cmake''"
    by (simp_all add: sample_env_eq)
  have x: "''x'' = [] \<or> (\<exists>ch \<in> set ''x''. \<not> is_digit ch \<and> \<not> is_space ch \<and> ch \<notin> set ''+-_'')"
    by (simp add: is_digit_def is_space_def)
  show ?thesis
    using malformed_version_raises_ValueError
            [OF a b, of "''3.5''" sample_env sample_world "''3.5''" "''x''"]
      malformed_version_raises_ValueError
            [OF a' b', of "''3.5''" sample_env sample_world "''3.5''" "''x''"]
      a b a' b' x
    by (simp add: c sample_cmake)
qed

theorem malformed_version_counterexample:
  "to_version_tuple ''3.x'' = Inl ValueError
   \<and> cmake_version sample_env = None
   \<and> fst (set_cmake_minimum_version sample_world (Some ''3.x'') sample_env) = Some ValueError
   \<and> to_version_tuple ''3.+5'' = Inr [3, 5]"
  by code_simp

lemma init_cmake_result:
  "cmake_base_dir s = Some base \<Longrightarrow>
   init_cmake W t s
     = (None,
        s\<lparr>cmake_command :=
             os_path_join W
               (if \<not> path_exists W (os_path_join W (os_path_join W base (''cmake-'' @ t)) ''bin'')
                then os_path_join W (os_path_join W base t) ''bin''
                else os_path_join W (os_path_join W base (''cmake-'' @ t)) ''bin'') ''cmake'',
           ctest_command :=
             os_path_join W
               (if \<not> path_exists W (os_path_join W (os_path_join W base (''cmake-'' @ t)) ''bin'')
                then os_path_join W (os_path_join W base t) ''bin''
                else os_path_join W (os_path_join W base (''cmake-'' @ t)) ''bin'') ''ctest'',
           cmake_version := Some t\<rparr>)"
  by (simp add: init_cmake_def Let_def)

lemma init_cmake_twice:
  "cmake_base_dir s = Some base \<Longrightarrow>
   init_cmake W t2 (snd (init_cmake W t1 s)) = init_cmake W t2 s"
  by (simp add: init_cmake_result)

lemma init_cmake_base:
  "cmake_base_dir s = Some base \<Longrightarrow> cmake_base_dir (snd (init_cmake W t s)) = Some base"
  by (simp add: init_cmake_result)

lemma scan_versions_last:
  assumes "cmake_base_dir s = Some base"
    and "\<forall>t \<in> set ts. \<exists>older. is_older_version t v = Inr older"
  shows "scan_versions W v ts s
           = (case filter (\<lambda>t. is_older_version t v = Inr False) ts of
                [] \<Rightarrow> (None, s)
              | q # qs \<Rightarrow> init_cmake W (last (q # qs)) s)"
  using assms
proof (induction ts arbitrary: s)
  case Nil
  then show ?case by simp
next
  case (Cons t ts)
  obtain older where o: "is_older_version t v = Inr older" using Cons.prems by auto
  show ?case
  proof (cases older)
    case True
    then show ?thesis using o Cons by simp
  next
    case False
    obtain s1 where i: "init_cmake W t s = (None, s1)"
      using Cons.prems(1) by (simp add: init_cmake_result)
    have b: "cmake_base_dir s1 = Some base"
      using init_cmake_base [OF Cons.prems(1), of W t] i by simp
    have tw: "init_cmake W t2 s1 = init_cmake W t2 s" for t2
      using init_cmake_twice [OF Cons.prems(1), of W t2 t] i by simp
    have ih: "scan_versions W v ts s1
           = (case filter (\<lambda>t. is_older_version t v = Inr False) ts of
                [] \<Rightarrow> (None, s1)
              | q # qs \<Rightarrow> init_cmake W (last (q # qs)) s1)"
      using Cons.IH [OF b] Cons.prems(2) by simp
    have "scan_versions W v (t # ts) s = scan_versions W v ts s1"
      using o False i by simp
    then show ?thesis
      using ih o False i tw
      by (auto split: list.splits)
  qed
qed


lemma map_result_nth:
  "map_result f xs = Inr ys \<Longrightarrow>
   length ys = length xs \<and> (\<forall>i < length xs. f (xs ! i) = Inr (ys ! i))"
proof (induction xs arbitrary: ys)
  case Nil
  then show ?case by simp
next
  case (Cons x xs)
  then obtain y ys' where y: "f x = Inr y" and r: "map_result f xs = Inr ys'" and e: "ys = y # ys'"
    by (auto split: sum.splits)
  have "length ys' = length xs \<and> (\<forall>i < length xs. f (xs ! i) = Inr (ys' ! i))"
    using Cons.IH [OF r] .
  then show ?case using y e by (auto simp: nth_Cons split: nat.splits)
qed

lemma map_result_pairs:
  "\<forall>p \<in> set ps. f (snd p) = Inr (fst p) \<Longrightarrow> map_result f (map snd ps) = Inr (map fst ps)"
  by (induction ps) auto

lemma map_result_zip:
  "map_result f xs = Inr ys \<Longrightarrow> \<forall>p \<in> set (zip ys xs). f (snd p) = Inr (fst p)"
proof -
  assume m: "map_result f xs = Inr ys"
  have n: "length ys = length xs" "\<forall>i < length xs. f (xs ! i) = Inr (ys ! i)"
    using map_result_nth [OF m] by simp_all
  show ?thesis
  proof
    fix p assume "p \<in> set (zip ys xs)"
    then obtain i where "i < length xs" "p = (ys ! i, xs ! i)"
      using n(1) by (auto simp: set_zip)
    then show "f (snd p) = Inr (fst p)" using n(2) by simp
  qed
qed

lemma get_available_sorted:
  assumes "get_available_cmake_versions W s = Inr available"
  shows "\<exists>keys. map_result to_version_tuple available = Inr keys \<and> sorted keys"
proof (cases "cmake_base_dir s")
  case None
  then have "available = []"
    using assms by (auto simp: get_available_cmake_versions_def split: sum.splits list.splits)
  then show ?thesis by simp
next
  case (Some base)
  then obtain dirs keys where d: "listdir W base = Inr dirs"
    and k: "map_result to_version_tuple
              (map (\<lambda>d. last (split_on CHR ''-'' d))
                 (filter (\<lambda>d. path_isfile W (cmake_binary W (system s) base d)) dirs)) = Inr keys"
    and a: "available = map snd (sort_key fst (zip keys
              (map (\<lambda>d. last (split_on CHR ''-'' d))
                 (filter (\<lambda>d. path_isfile W (cmake_binary W (system s) base d)) dirs))))"
    using assms by (auto simp: get_available_cmake_versions_def Let_def split: sum.splits)
  let ?vs = "map (\<lambda>d. last (split_on CHR ''-'' d))
                 (filter (\<lambda>d. path_isfile W (cmake_binary W (system s) base d)) dirs)"
  let ?ps = "sort_key fst (zip keys ?vs)"
  have "\<forall>p \<in> set ?ps. to_version_tuple (snd p) = Inr (fst p)"
    using map_result_zip [OF k] by simp
  then have "map_result to_version_tuple (map snd ?ps) = Inr (map fst ?ps)"
    by (rule map_result_pairs)
  moreover have "sorted (map fst ?ps)" by (rule sorted_sort_key)
  ultimately show ?thesis using a by blast
qed

lemma get_available_base:
  "get_available_cmake_versions W s = Inr available \<Longrightarrow> available \<noteq> [] \<Longrightarrow>
   \<exists>base. cmake_base_dir s = Some base"
  by (auto simp: get_available_cmake_versions_def split: option.splits sum.splits list.splits)

lemma last_filter_holds: "xs \<noteq> [] \<Longrightarrow> P (last xs) \<Longrightarrow> last (filter P xs) = last xs"
proof (induction xs)
  case Nil
  then show ?case by simp
next
  case (Cons x xs)
  show ?case
  proof (cases "xs = []")
    case True
    then show ?thesis using Cons.prems by simp
  next
    case False
    then have p: "P (last xs)" using Cons.prems by simp
    then have "filter P xs \<noteq> []"
      using False last_in_set [OF False] by (auto simp: filter_empty_conv)
    then show ?thesis using Cons.IH [OF False p] False by simp
  qed
qed

lemma newest_qualifies:
  assumes m: "map_result to_version_tuple available = Inr keys" and s: "sorted keys"
    and v: "to_version_tuple v = Inr kv"
    and t: "t \<in> set available" and q: "is_older_version t v = Inr False"
  shows "is_older_version (last available) v = Inr False"
proof -
  have n: "length keys = length available"
    "\<forall>i < length available. to_version_tuple (available ! i) = Inr (keys ! i)"
    using map_result_nth [OF m] by simp_all
  obtain i where i: "i < length available" "t = available ! i"
    using t by (auto simp: in_set_conv_nth)
  have ne: "available \<noteq> []" using t by auto
  let ?j = "length available - 1"
  have j: "?j < length available" "i \<le> ?j" using i ne by simp_all
  have kt: "to_version_tuple t = Inr (keys ! i)" using n i by simp
  have kl: "to_version_tuple (last available) = Inr (keys ! ?j)"
    using n j ne by (simp add: last_conv_nth)
  have "keys ! i \<le> keys ! ?j"
    using s j n(1) by (simp add: sorted_nth_mono)
  moreover have "\<not> keys ! i < kv"
    using q is_older_version_parsed [OF kt v] by simp
  ultimately have "\<not> keys ! ?j < kv" by auto
  then show ?thesis using is_older_version_parsed [OF kl v] by simp
qed


lemma is_older_version_parses:
  "is_older_version a b = Inr r \<Longrightarrow> \<exists>kb. to_version_tuple b = Inr kb"
  by (auto simp: is_older_version_def split: sum.splits)

lemma scan_versions_newest:
  assumes g: "get_available_cmake_versions W s = Inr available"
    and v: "to_version_tuple v = Inr kv"
  shows "scan_versions W v available s
           = (if available \<noteq> [] \<and> is_older_version (last available) v = Inr False
              then init_cmake W (last available) s else (None, s))"
proof (cases "available = []")
  case True
  then show ?thesis by simp
next
  case False
  obtain base where b: "cmake_base_dir s = Some base"
    using get_available_base [OF g False] by blast
  obtain keys where k: "map_result to_version_tuple available = Inr keys" and so: "sorted keys"
    using get_available_sorted [OF g] by blast
  have p: "\<forall>t \<in> set available. \<exists>older. is_older_version t v = Inr older"
  proof
    fix t assume "t \<in> set available"
    then obtain i where "i < length available" "t = available ! i"
      by (auto simp: in_set_conv_nth)
    then have "to_version_tuple t = Inr (keys ! i)" using map_result_nth [OF k] by simp
    then show "\<exists>older. is_older_version t v = Inr older"
      using is_older_version_parsed [OF _ v] by blast
  qed
  let ?P = "\<lambda>t. is_older_version t v = Inr False"
  have sc: "scan_versions W v available s
           = (case filter ?P available of [] \<Rightarrow> (None, s)
              | q # qs \<Rightarrow> init_cmake W (last (q # qs)) s)"
    using b p by (rule scan_versions_last)
  show ?thesis
  proof (cases "filter ?P available")
    case Nil
    then have "\<not> ?P (last available)"
      using last_in_set [OF False] by (auto simp: filter_empty_conv)
    then show ?thesis using sc Nil by simp
  next
    case (Cons q qs)
    then have "q \<in> set (filter ?P available)" by simp
    then have q: "q \<in> set available" "?P q" by auto
    have l: "?P (last available)" using k so v q by (rule newest_qualifies)
    have "last (filter ?P available) = last available"
      using False l by (rule last_filter_holds)
    then show ?thesis using sc Cons l False by simp
  qed
qed

text \<open>
  C1, as the code has it. When a CMake version is already recorded or none is requested,
  \<open>_set_cmake_minimum_version\<close> changes nothing. Otherwise it records the version of
  the active \<open>cmake\<close>; when that version is not older than the requested \<open>v\<close> it
  stops there. When it is older, the available installations are scanned in ascending
  order of version, and every one that is not older than \<open>v\<close> is activated in turn,
  since the loop does not stop at the first: the call ends with the last of them active,
  which is the newest available installation (whenever any installation qualifies, the
  newest does). Activation is \<open>_init_cmake\<close>: it switches \<open>cmake_command\<close> and
  \<open>ctest_command\<close> to that installation's binaries and sets \<open>cmake_version\<close> to it.
  When no installation qualifies, only the active version has been recorded.
\<close>

theorem set_cmake_minimum_version_activates_newest:
  "(truthy (cmake_version self) \<or> \<not> truthy version \<longrightarrow>
      set_cmake_minimum_version W version self = (None, self))
   \<and> (\<not> truthy (cmake_version self) \<and> version = Some v \<and> v \<noteq> []
       \<and> get_cmake_version W (runner_calls self) (cmake_command self) = Inr current \<longrightarrow>
       (is_older_version current v = Inr False \<longrightarrow>
          set_cmake_minimum_version W version self
            = (None, self\<lparr>cmake_version := Some current\<rparr>))
       \<and> (is_older_version current v = Inr True
           \<and> get_available_cmake_versions W (self\<lparr>cmake_version := Some current\<rparr>) = Inr available \<longrightarrow>
           (\<exists>keys. map_result to_version_tuple available = Inr keys \<and> sorted keys)
           \<and> (\<forall>t \<in> set available. is_older_version t v = Inr False \<longrightarrow>
                  is_older_version (last available) v = Inr False)
           \<and> set_cmake_minimum_version W version self
               = (if available \<noteq> [] \<and> is_older_version (last available) v = Inr False
                  then init_cmake W (last available) (self\<lparr>cmake_version := Some current\<rparr>)
                  else (None, self\<lparr>cmake_version := Some current\<rparr>))
           \<and> (available \<noteq> [] \<longrightarrow>
                 fst (init_cmake W (last available) (self\<lparr>cmake_version := Some current\<rparr>)) = None
                 \<and> cmake_version (snd (init_cmake W (last available)
                                          (self\<lparr>cmake_version := Some current\<rparr>)))
                     = Some (last available))))"
proof -
  let ?s1 = "self\<lparr>cmake_version := Some current\<rparr>"
  have a: "truthy (cmake_version self) \<or> \<not> truthy version \<longrightarrow>
      set_cmake_minimum_version W version self = (None, self)"
    by (cases version) (auto simp: set_cmake_minimum_version_def)
  have b: "is_older_version current v = Inr False \<longrightarrow>
          set_cmake_minimum_version W version self = (None, ?s1)"
    if "\<not> truthy (cmake_version self)" "version = Some v" "v \<noteq> []"
      "get_cmake_version W (runner_calls self) (cmake_command self) = Inr current"
    using that by (simp add: set_cmake_minimum_version_def Let_def)
  have c: "(\<exists>keys. map_result to_version_tuple available = Inr keys \<and> sorted keys)
           \<and> (\<forall>t \<in> set available. is_older_version t v = Inr False \<longrightarrow>
                  is_older_version (last available) v = Inr False)
           \<and> set_cmake_minimum_version W version self
               = (if available \<noteq> [] \<and> is_older_version (last available) v = Inr False
                  then init_cmake W (last available) ?s1 else (None, ?s1))
           \<and> (available \<noteq> [] \<longrightarrow>
                 fst (init_cmake W (last available) ?s1) = None
                 \<and> cmake_version (snd (init_cmake W (last available) ?s1)) = Some (last available))"
    if h: "\<not> truthy (cmake_version self)" "version = Some v" "v \<noteq> []"
      "get_cmake_version W (runner_calls self) (cmake_command self) = Inr current"
      and o: "is_older_version current v = Inr True"
      and g: "get_available_cmake_versions W ?s1 = Inr available"
  proof -
    obtain kv where v: "to_version_tuple v = Inr kv"
      using is_older_version_parses [OF o] by blast
    obtain keys where k: "map_result to_version_tuple available = Inr keys" and so: "sorted keys"
      using get_available_sorted [OF g] by blast
    have c1: "\<exists>keys. map_result to_version_tuple available = Inr keys \<and> sorted keys"
      using k so by blast
    have c2: "\<forall>t \<in> set available. is_older_version t v = Inr False \<longrightarrow>
                  is_older_version (last available) v = Inr False"
      using newest_qualifies [OF k so v] by blast
    have "set_cmake_minimum_version W version self = scan_versions W v available ?s1"
      using h o g by (simp add: set_cmake_minimum_version_def Let_def)
    then have c3: "set_cmake_minimum_version W version self
               = (if available \<noteq> [] \<and> is_older_version (last available) v = Inr False
                  then init_cmake W (last available) ?s1 else (None, ?s1))"
      using scan_versions_newest [OF g v] by simp
    have c4: "available \<noteq> [] \<longrightarrow>
                 fst (init_cmake W (last available) ?s1) = None
                 \<and> cmake_version (snd (init_cmake W (last available) ?s1)) = Some (last available)"
    proof
      assume "available \<noteq> []"
      then obtain base where "cmake_base_dir ?s1 = Some base"
        using get_available_base [OF g] by blast
      then show "fst (init_cmake W (last available) ?s1) = None
                 \<and> cmake_version (snd (init_cmake W (last available) ?s1)) = Some (last available)"
        by (simp add: init_cmake_result)
    qed
    show ?thesis using c1 c2 c3 c4 by blast
  qed
  show ?thesis using a b c by blast
qed

lemma sample_available:
  "get_available_cmake_versions sample_world (sample_env\<lparr>cmake_version := Some ''3.5''\<rparr>)
     = Inr [''3.4.3'', ''3.12'', ''3.14'']"
  by code_simp

lemma sample_older:
  "is_older_version ''3.5'' ''3.10'' = Inr True"
  "is_older_version ''3.14'' ''3.10'' = Inr False"
  "is_older_version ''3.12'' ''3.10'' = Inr False"
  "is_older_version ''3.4.3'' ''3.10'' = Inr True"
  "is_older_version ''3.5'' ''3.1'' = Inr False"
  by code_simp+

lemma sample_init_cmake:
  "cmake_command (snd (init_cmake sample_world ''3.14'' (sample_env\<lparr>cmake_version := Some ''3.5''\<rparr>)))
     = ''/opt/cmake/cmake-3.14/bin/cmake''"
  "ctest_command (snd (init_cmake sample_world ''3.14'' (sample_env\<lparr>cmake_version := Some ''3.5''\<rparr>)))
     = ''/opt/cmake/cmake-3.14/bin/ctest''"
  by code_simp+

theorem set_cmake_minimum_version_activates_newest_witness:
  "set_cmake_minimum_version sample_world None sample_env = (None, sample_env)
   \<and> cmake_version sample_env = None
   \<and> get_cmake_version sample_world (runner_calls sample_env) (cmake_command sample_env) = Inr ''3.5''
   \<and> is_older_version ''3.5'' ''3.1'' = Inr False
   \<and> set_cmake_minimum_version sample_world (Some ''3.1'') sample_env
       = (None, sample_env\<lparr>cmake_version := Some ''3.5''\<rparr>)
   \<and> is_older_version ''3.5'' ''3.10'' = Inr True
   \<and> get_available_cmake_versions sample_world (sample_env\<lparr>cmake_version := Some ''3.5''\<rparr>)
       = Inr [''3.4.3'', ''3.12'', ''3.14'']
   \<and> fst (set_cmake_minimum_version sample_world (Some ''3.10'') sample_env) = None
   \<and> cmake_version (snd (set_cmake_minimum_version sample_world (Some ''3.10'') sample_env))
       = Some ''3.14''
   \<and> cmake_command (snd (set_cmake_minimum_version sample_world (Some ''3.10'') sample_env))
       = ''/opt/cmake/cmake-3.14/bin/cmake''
   \<and> ctest_command (snd (set_cmake_minimum_version sample_world (Some ''3.10'') sample_env))
       = ''/opt/cmake/cmake-3.14/bin/ctest''"
proof -
  have c: "cmake_version sample_env = None" "cmake_command sample_env = ''cmake''"
    by (simp_all add: sample_env_eq)
  have g: "get_cmake_version sample_world (runner_calls sample_env) (cmake_command sample_env) = Inr ''3.5''"
    by (simp add: c sample_cmake)
  show ?thesis
    using set_cmake_minimum_version_activates_newest
            [of sample_env None sample_world "''3.1''" "''3.5''" "[]"]
      set_cmake_minimum_version_activates_newest
            [of sample_env "Some ''3.1''" sample_world "''3.1''" "''3.5''" "[]"]
      set_cmake_minimum_version_activates_newest
            [of sample_env "Some ''3.10''" sample_world "''3.10''" "''3.5''"
                "[''3.4.3'', ''3.12'', ''3.14'']"]
      c g
    by (simp add: sample_available sample_older sample_init_cmake)
qed

theorem set_cmake_minimum_version_counterexample:
  "cmake_version sample_env = None
   \<and> get_cmake_version sample_world (runner_calls sample_env) (cmake_command sample_env) = Inr ''3.5''
   \<and> is_older_version ''3.5'' ''3.10'' = Inr True
   \<and> get_available_cmake_versions sample_world (sample_env\<lparr>cmake_version := Some ''3.5''\<rparr>)
       = Inr [''3.4.3'', ''3.12'', ''3.14'']
   \<and> is_older_version ''3.4.3'' ''3.10'' = Inr True
   \<and> is_older_version ''3.12'' ''3.10'' = Inr False
   \<and> fst (set_cmake_minimum_version sample_world (Some ''3.10'') sample_env) = None
   \<and> cmake_version (snd (set_cmake_minimum_version sample_world (Some ''3.10'') sample_env))
       = Some ''3.14''
   \<and> cmake_command (snd (set_cmake_minimum_version sample_world (Some ''3.10'') sample_env))
       = ''/opt/cmake/cmake-3.14/bin/cmake''"
  by code_simp

end
